theory Spec2Isabelle
  imports Complex_Main "HOL-Library.Sublist" "HOL-Library.Product_Lexorder" "HOL-Library.Multiset"
begin

section \<open>Items, questions and the engine state\<close>

text \<open>
  The engine of \<^verbatim>\<open>src/backend/engines/engine_akinator.py\<close> works on movies that are
  Python dicts. The model keeps the fields the engine itself reads:
  \<^item> \<open>movie_id\<close>: what the source's \<^verbatim>\<open>movie_id(m)\<close> returns, \<open>None\<close> when the dict has
    no usable \<^verbatim>\<open>"id"\<close>;
  \<^item> \<open>title\<close>: \<^verbatim>\<open>m.get("title")\<close>, \<open>None\<close> when the key is missing;
  \<^item> \<open>original_language\<close>: \<^verbatim>\<open>m.get("original_language")\<close>;
  \<^item> \<open>popularity\<close>: \<^verbatim>\<open>m.get("popularity")\<close>, a number, \<open>None\<close> when the key is missing.
  Scores and popularities are Python floats; the model computes with exact rationals.
\<close>

record movie =
  movie_id :: "int option"
  title :: "string option"
  original_language :: "string option"
  popularity :: "rat option"

text \<open>
  A predicate is a three-valued test: \<open>Some True\<close>, \<open>Some False\<close>, or \<open>None\<close> for
  Python's \<^verbatim>\<open>None\<close> (unknown).
\<close>

record Question =
  key :: string
  text_of :: string
  predicate :: "movie \<Rightarrow> bool option"
  requires :: "string set option"
  excludes :: "string set option"

record EngineState =
  candidates :: "movie list"
  asked :: "string set"
  scores :: "int \<rightharpoonup> rat"
  strikes :: "int \<rightharpoonup> int"
  question_count :: int
  guess_cooldown :: int
  top_streak_mid :: "int option"
  top_streak_len :: int
  consecutive_guesses :: int
  recent_question_types :: "string list"

text \<open>\<^verbatim>\<open>key.startswith(p)\<close>\<close>

definition startswith :: "string \<Rightarrow> string \<Rightarrow> bool" where
  "startswith s p = prefix p s"

text \<open>\<^verbatim>\<open>d.get(mid, 0.0)\<close> on the score table and \<^verbatim>\<open>d.get(mid, 0)\<close> on the strike table.\<close>

definition score_get :: "(int \<rightharpoonup> rat) \<Rightarrow> int \<Rightarrow> rat" where
  "score_get sc mid = (case sc mid of None \<Rightarrow> 0 | Some v \<Rightarrow> v)"

definition strike_get :: "(int \<rightharpoonup> int) \<Rightarrow> int \<Rightarrow> int" where
  "strike_get st mid = (case st mid of None \<Rightarrow> 0 | Some v \<Rightarrow> v)"

text \<open>\<^verbatim>\<open>state.scores[mid] = state.scores.get(mid, 0.0) + d\<close>\<close>

definition bump :: "(int \<rightharpoonup> rat) \<Rightarrow> int \<Rightarrow> rat \<Rightarrow> (int \<rightharpoonup> rat)" where
  "bump sc mid d = sc(mid \<mapsto> score_get sc mid + d)"

subsection \<open>\<^verbatim>\<open>init_state\<close>, \<^verbatim>\<open>snapshot_state\<close>, \<^verbatim>\<open>sort_candidates\<close>\<close>

definition init_scores :: "movie list \<Rightarrow> (int \<rightharpoonup> rat)" where
  "init_scores movies =
     fold (\<lambda>m sc. case movie_id m of None \<Rightarrow> sc | Some mid \<Rightarrow> sc(mid \<mapsto> 0)) movies Map.empty"

definition init_state :: "movie list \<Rightarrow> EngineState" where
  "init_state movies =
     \<lparr> candidates = movies, asked = {}, scores = init_scores movies, strikes = Map.empty,
       question_count = 0, guess_cooldown = 0, top_streak_mid = None, top_streak_len = 0,
       consecutive_guesses = 0, recent_question_types = [] \<rparr>"

text \<open>
  The sort key of \<^verbatim>\<open>sort_candidates\<close>: \<^verbatim>\<open>(-score, -pop)\<close>, and \<^verbatim>\<open>(-1e9, 0.0)\<close> for an item
  without identifier; \<^verbatim>\<open>pop\<close> is \<^verbatim>\<open>float(m.get("popularity", 0.0))\<close>, 0.0 when the key is
  missing. Python compares the tuples lexicographically and \<^verbatim>\<open>list.sort\<close> is stable, as
  is \<open>sort_key\<close>.
\<close>

definition key_func :: "EngineState \<Rightarrow> movie \<Rightarrow> rat \<times> rat" where
  "key_func state m =
     (case movie_id m of
        None \<Rightarrow> (- 1000000000, 0)
      | Some mid \<Rightarrow>
          (- score_get (scores state) mid,
           - (case popularity m of None \<Rightarrow> 0 | Some pop \<Rightarrow> pop)))"

definition sort_candidates :: "EngineState \<Rightarrow> EngineState" where
  "sort_candidates state = state\<lparr>candidates := sort_key (key_func state) (candidates state)\<rparr>"

subsection \<open>\<^verbatim>\<open>update_state_with_answer\<close>\<close>

definition hard_elimination_prefixes :: "string list" where
  "hard_elimination_prefixes =
     [''franchise_'', ''language_'', ''director_'', ''joker_title_'', ''char_'',
      ''decade_'', ''year_'']"

definition hard_elimination_keys :: "string set" where
  "hard_elimination_keys =
     {''is_animation'', ''is_live_action'', ''is_short'', ''is_feature'',
      ''runtime_lt_90'', ''runtime_ge_150'', ''before_2000'', ''after_2010'',
      ''is_saga'', ''is_standalone'', ''big_budget'', ''small_budget'',
      ''is_american'', ''is_french'', ''is_european'', ''is_asian''}"

definition is_hard_elimination :: "Question \<Rightarrow> bool" where
  "is_hard_elimination q =
     (key q \<in> hard_elimination_keys \<or>
      (\<exists>p \<in> set hard_elimination_prefixes. startswith (key q) p))"

text \<open>
  The body of the loop of the \<^verbatim>\<open>"y"\<close> branch, on the pair (score table, \<^verbatim>\<open>to_keep\<close>):
  an item without identifier is skipped (and so not kept), predicate true keeps the item
  with +5.0, unknown keeps it with -1.0, false drops it.
\<close>

definition yes_step :: "Question \<Rightarrow> movie \<Rightarrow> (int \<rightharpoonup> rat) \<times> movie list \<Rightarrow> (int \<rightharpoonup> rat) \<times> movie list" where
  "yes_step q m acc =
     (case movie_id m of
        None \<Rightarrow> acc
      | Some mid \<Rightarrow>
          (case predicate q m of
             Some True \<Rightarrow> (bump (fst acc) mid 5, snd acc @ [m])
           | None \<Rightarrow> (bump (fst acc) mid (- 1), snd acc @ [m])
           | Some False \<Rightarrow> acc))"

text \<open>The \<^verbatim>\<open>"n"\<close> branch: false keeps with +3.0, unknown keeps with +0.5, true drops.\<close>

definition no_step :: "Question \<Rightarrow> movie \<Rightarrow> (int \<rightharpoonup> rat) \<times> movie list \<Rightarrow> (int \<rightharpoonup> rat) \<times> movie list" where
  "no_step q m acc =
     (case movie_id m of
        None \<Rightarrow> acc
      | Some mid \<Rightarrow>
          (case predicate q m of
             Some False \<Rightarrow> (bump (fst acc) mid 3, snd acc @ [m])
           | None \<Rightarrow> (bump (fst acc) mid (1 / 2), snd acc @ [m])
           | Some True \<Rightarrow> acc))"

text \<open>\<^verbatim>\<open>{movie_id(m) for m in state.candidates if movie_id(m) is not None}\<close>\<close>

definition remaining_ids :: "movie list \<Rightarrow> int set" where
  "remaining_ids ms = set (List.map_filter movie_id ms)"

text \<open>
  After the loop both branches replace the pool by \<^verbatim>\<open>to_keep\<close> and rebuild the score and
  strike tables restricted to the identifiers that remain.
\<close>

definition keep_only :: "EngineState \<Rightarrow> (int \<rightharpoonup> rat) \<times> movie list \<Rightarrow> EngineState" where
  "keep_only state r =
     state\<lparr> candidates := snd r,
            scores := fst r |` remaining_ids (snd r),
            strikes := strikes state |` remaining_ids (snd r) \<rparr>"

definition answer_y :: "EngineState \<Rightarrow> Question \<Rightarrow> EngineState" where
  "answer_y state q = keep_only state (fold (yes_step q) (candidates state) (scores state, []))"

definition answer_n :: "EngineState \<Rightarrow> Question \<Rightarrow> EngineState" where
  "answer_n state q = keep_only state (fold (no_step q) (candidates state) (scores state, []))"

text \<open>
  The \<^verbatim>\<open>"py"\<close>, \<^verbatim>\<open>"pn"\<close> and \<^verbatim>\<open>"?"\<close> branches only change scores; the boost and the penalty
  depend on the class of the question.
\<close>

definition py_step :: "Question \<Rightarrow> movie \<Rightarrow> (int \<rightharpoonup> rat) \<Rightarrow> (int \<rightharpoonup> rat)" where
  "py_step q m sc =
     (case movie_id m of
        None \<Rightarrow> sc
      | Some mid \<Rightarrow>
          (case predicate q m of
             Some True \<Rightarrow> bump sc mid (if is_hard_elimination q then 3 / 2 else 1 / 2)
           | Some False \<Rightarrow> bump sc mid (if is_hard_elimination q then - 2 else - (3 / 4))
           | None \<Rightarrow> sc))"

definition pn_step :: "Question \<Rightarrow> movie \<Rightarrow> (int \<rightharpoonup> rat) \<Rightarrow> (int \<rightharpoonup> rat)" where
  "pn_step q m sc =
     (case movie_id m of
        None \<Rightarrow> sc
      | Some mid \<Rightarrow>
          (case predicate q m of
             Some False \<Rightarrow> bump sc mid (if is_hard_elimination q then 3 / 2 else 1 / 2)
           | Some True \<Rightarrow> bump sc mid (if is_hard_elimination q then - 2 else - (3 / 4))
           | None \<Rightarrow> sc))"

definition unknown_step :: "Question \<Rightarrow> movie \<Rightarrow> (int \<rightharpoonup> rat) \<Rightarrow> (int \<rightharpoonup> rat)" where
  "unknown_step q m sc =
     (case movie_id m of
        None \<Rightarrow> sc
      | Some mid \<Rightarrow>
          (case predicate q m of
             None \<Rightarrow> bump sc mid (1 / 5)
           | Some b \<Rightarrow> sc))"

text \<open>The five branches on the answer code; any other code changes nothing.\<close>

definition apply_answer :: "EngineState \<Rightarrow> Question \<Rightarrow> string \<Rightarrow> EngineState" where
  "apply_answer state q ans =
     (if ans = ''y'' then answer_y state q
      else if ans = ''n'' then answer_n state q
      else if ans = ''py'' then state\<lparr>scores := fold (py_step q) (candidates state) (scores state)\<rparr>
      else if ans = ''pn'' then state\<lparr>scores := fold (pn_step q) (candidates state) (scores state)\<rparr>
      else if ans = ''?'' then state\<lparr>scores := fold (unknown_step q) (candidates state) (scores state)\<rparr>
      else state)"

text \<open>
  Elimination by strikes: \<^verbatim>\<open>to_remove\<close> lists the identifiers whose strike count is at
  least \<^verbatim>\<open>max_strikes\<close>; when it is not empty, the pool keeps the items whose
  \<^verbatim>\<open>movie_id\<close> is not in it (an item without identifier stays) and the identifiers are
  popped from both tables.
\<close>

definition to_remove :: "EngineState \<Rightarrow> int \<Rightarrow> int list" where
  "to_remove state max_strikes =
     List.map_filter
       (\<lambda>m. case movie_id m of
              None \<Rightarrow> None
            | Some mid \<Rightarrow> if strike_get (strikes state) mid \<ge> max_strikes then Some mid else None)
       (candidates state)"

definition strike_elimination :: "EngineState \<Rightarrow> int \<Rightarrow> EngineState" where
  "strike_elimination state max_strikes =
     (let tr = to_remove state max_strikes in
      if tr = [] then state
      else state\<lparr> candidates := filter (\<lambda>m. movie_id m \<notin> Some ` set tr) (candidates state),
                  scores := fold (\<lambda>mid sc. sc(mid := None)) tr (scores state),
                  strikes := fold (\<lambda>mid st. st(mid := None)) tr (strikes state) \<rparr>)"

definition update_state_with_answer :: "EngineState \<Rightarrow> Question \<Rightarrow> string \<Rightarrow> int \<Rightarrow> EngineState" where
  "update_state_with_answer state q ans max_strikes =
     (let s1 = apply_answer state q ans;
          s2 = (if \<not> is_hard_elimination q then strike_elimination s1 max_strikes else s1)
      in sort_candidates s2)"

text \<open>\<^verbatim>\<open>eliminate_movie\<close>: every item with that identifier leaves the pool and both tables.\<close>

definition eliminate_movie :: "EngineState \<Rightarrow> int \<Rightarrow> EngineState" where
  "eliminate_movie state mid =
     state\<lparr> candidates := filter (\<lambda>m. movie_id m \<noteq> Some mid) (candidates state),
            scores := (scores state)(mid := None),
            strikes := (strikes state)(mid := None) \<rparr>"


subsection \<open>Guess mode\<close>

definition score_of :: "EngineState \<Rightarrow> movie \<Rightarrow> rat" where
  "score_of state m =
     (case movie_id m of None \<Rightarrow> - 1000000000 | Some mid \<Rightarrow> score_get (scores state) mid)"

text \<open>
  \<^verbatim>\<open>should_enter_guess_mode\<close>, branch by branch. The indices 0 and 1 are read only under
  the guard \<^verbatim>\<open>len(state.candidates) >= 2\<close>; the division is guarded by \<^verbatim>\<open>s2 > 0\<close>.
\<close>

definition should_enter_guess_mode :: "EngineState \<Rightarrow> bool" where
  "should_enter_guess_mode state =
     (if length (candidates state) = 1 then True
      else if length (candidates state) \<ge> 2 \<and>
              (let s1 = score_of state (candidates state ! 0);
                   s2 = score_of state (candidates state ! 1)
               in if s2 > 0 \<and> s1 / s2 \<ge> 2 then True
                  else if s2 \<le> 0 \<and> s1 \<ge> 10 then True
                  else False) then True
      else if top_streak_len state \<ge> 10 then True
      else False)"

section \<open>The turns of \<^verbatim>\<open>main\<close>\<close>

datatype py_error = IndexError

text \<open>
  The command line of \<^verbatim>\<open>main\<close>: \<^verbatim>\<open>--max-strikes\<close> (default 3, used as
  \<^verbatim>\<open>max(1, ...)\<close>) and \<^verbatim>\<open>--guess-cooldown\<close> (default 2, used as given).
\<close>

record args =
  arg_max_strikes :: int
  arg_guess_cooldown :: int

definition default_args :: args where
  "default_args = \<lparr> arg_max_strikes = 3, arg_guess_cooldown = 2 \<rparr>"

definition max_strikes_of :: "args \<Rightarrow> int" where
  "max_strikes_of a = max 1 (arg_max_strikes a)"

text \<open>\<^verbatim>\<open>get_question_type\<close>: the first matching prefix decides.\<close>

definition startswith_any :: "string \<Rightarrow> string list \<Rightarrow> bool" where
  "startswith_any s ps = (\<exists>p \<in> set ps. startswith s p)"

definition get_question_type :: "Question \<Rightarrow> string" where
  "get_question_type q =
     (let k = key q in
      if startswith k ''validate_'' then ''validation''
      else if startswith k ''language_'' then ''language''
      else if startswith_any k [''actor_'', ''dyn_actor_''] then ''actor''
      else if startswith_any k [''director_'', ''dyn_director_''] then ''director''
      else if startswith k ''genre_'' then ''genre''
      else if startswith_any k [''franchise_'', ''char_''] then ''franchise''
      else if startswith_any k [''year_'', ''decade_'', ''after_'', ''before_''] then ''date''
      else if startswith k ''dyn_keyword_'' then ''keyword''
      else if startswith k ''runtime_'' then ''runtime''
      else if startswith k ''joker_title_'' then ''title''
      else if startswith_any k [''big_budget'', ''small_budget'', ''box_office'', ''is_indie''] then ''finance''
      else if startswith_any k [''popular'', ''very_popular''] then ''popularity''
      else if startswith_any k [''is_saga'', ''is_standalone'', ''is_adaptation'', ''based_on_'', ''superhero''] then ''meta''
      else if startswith_any k [''is_american'', ''is_french'', ''is_european'', ''is_asian''] then ''origin''
      else if startswith_any k [''is_animation'', ''is_live_action'', ''is_short'', ''is_feature''] then ''format''
      else if startswith k ''theme_'' then ''theme''
      else ''other'')"

definition all_languages :: "string set" where
  "all_languages =
     {''language_en'', ''language_fr'', ''language_ja'', ''language_es'',
      ''language_de'', ''language_it'', ''language_ko'', ''language_zh''}"

text \<open>
  The bookkeeping of an answered question in the main path, before the update: the key
  joins \<^verbatim>\<open>asked\<close>, the question type joins the recent types (the last 10 are kept), a
  \<^verbatim>\<open>"y"\<close> to a \<^verbatim>\<open>language_\<close> key adds every other key of \<^verbatim>\<open>all_languages\<close>, the
  question counter grows, the failed-guess counter is reset and a positive cooldown
  loses one.
\<close>

definition note_question :: "EngineState \<Rightarrow> Question \<Rightarrow> string \<Rightarrow> EngineState" where
  "note_question state q ans =
     (let s1 = state\<lparr>asked := insert (key q) (asked state)\<rparr>;
          types = recent_question_types s1 @ [get_question_type q];
          s2 = s1\<lparr>recent_question_types :=
                    (if length types > 10 then drop (length types - 10) types else types)\<rparr>;
          s3 = (if ans = ''y'' \<and> startswith (key q) ''language_''
                then s2\<lparr>asked := asked s2 \<union> (all_languages - {key q})\<rparr>
                else s2);
          s4 = s3\<lparr>question_count := question_count s3 + 1, consecutive_guesses := 0\<rparr>
      in if guess_cooldown s4 > 0 then s4\<lparr>guess_cooldown := guess_cooldown s4 - 1\<rparr> else s4)"

text \<open>
  After the update the main path reads \<^verbatim>\<open>state.candidates[0]\<close>, which raises on an empty
  pool, and refreshes the streak: one more when the top item is the same, otherwise a new
  streak of length 1; an item without identifier leaves the streak alone.
\<close>

definition update_streak :: "EngineState \<Rightarrow> py_error + EngineState" where
  "update_streak state =
     (case candidates state of
        [] \<Rightarrow> Inl IndexError
      | m0 # rest \<Rightarrow>
          Inr (case movie_id m0 of
                 None \<Rightarrow> state
               | Some mid \<Rightarrow>
                   if top_streak_mid state = Some mid
                   then state\<lparr>top_streak_len := top_streak_len state + 1\<rparr>
                   else state\<lparr>top_streak_mid := Some mid, top_streak_len := 1\<rparr>))"

definition answer_turn :: "args \<Rightarrow> EngineState \<Rightarrow> Question \<Rightarrow> string \<Rightarrow> py_error + EngineState" where
  "answer_turn a state q ans =
     update_streak (update_state_with_answer (note_question state q ans) q ans (max_strikes_of a))"

text \<open>
  The targeted questions asked after too many failed guesses have a shorter bookkeeping:
  key, counters and cooldown only, then the update.
\<close>

definition targeted_answer_turn :: "args \<Rightarrow> EngineState \<Rightarrow> Question \<Rightarrow> string \<Rightarrow> EngineState" where
  "targeted_answer_turn a state tq ans =
     (let s1 = state\<lparr>asked := insert (key tq) (asked state),
                     question_count := question_count state + 1,
                     consecutive_guesses := 0\<rparr>;
          s2 = (if guess_cooldown s1 > 0 then s1\<lparr>guess_cooldown := guess_cooldown s1 - 1\<rparr> else s1)
      in update_state_with_answer s2 tq ans (max_strikes_of a))"

text \<open>
  A guess is offered at the top of the loop when \<^verbatim>\<open>should_enter_guess_mode(state) and
  state.guess_cooldown == 0\<close>, and after an answer when the streak is at least 9 and the
  cooldown is 0.
\<close>

definition guess_offered :: "EngineState \<Rightarrow> bool" where
  "guess_offered state = (should_enter_guess_mode state \<and> guess_cooldown state = 0)"

definition streak_guess_offered :: "EngineState \<Rightarrow> bool" where
  "streak_guess_offered state =
     (case candidates state of
        [] \<Rightarrow> False
      | m0 # rest \<Rightarrow> movie_id m0 \<noteq> None \<and> top_streak_len state \<ge> 9 \<and> guess_cooldown state = 0)"

text \<open>
  A rejected guess, at either place: the top item is eliminated when it has an
  identifier, the pool is sorted again, the cooldown is set to \<^verbatim>\<open>args.guess_cooldown\<close>,
  the streak restarts on the new top item and the failed-guess counter grows.
\<close>

definition top_mid :: "EngineState \<Rightarrow> int option" where
  "top_mid state = (case candidates state of [] \<Rightarrow> None | m # ms \<Rightarrow> movie_id m)"

definition reject_guess :: "args \<Rightarrow> EngineState \<Rightarrow> py_error + EngineState" where
  "reject_guess a state =
     (case candidates state of
        [] \<Rightarrow> Inl IndexError
      | m0 # rest \<Rightarrow>
          (let s1 = (case movie_id m0 of None \<Rightarrow> state | Some mid \<Rightarrow> eliminate_movie state mid);
               s2 = sort_candidates s1
           in Inr (s2\<lparr> guess_cooldown := arg_guess_cooldown a,
                        top_streak_mid := top_mid s2,
                        top_streak_len := 0,
                        consecutive_guesses := consecutive_guesses s2 + 1 \<rparr>)))"

section \<open>Sessions: the loop of \<^verbatim>\<open>main\<close> as a step function\<close>

text \<open>
  \<^verbatim>\<open>snapshot_state\<close> builds a new state from the fields of the old one.
\<close>

definition snapshot_state :: "EngineState \<Rightarrow> EngineState" where
  "snapshot_state state =
     \<lparr> candidates = candidates state, asked = asked state, scores = scores state,
       strikes = strikes state, question_count = question_count state,
       guess_cooldown = guess_cooldown state, top_streak_mid = top_streak_mid state,
       top_streak_len = top_streak_len state, consecutive_guesses = consecutive_guesses state,
       recent_question_types = recent_question_types state \<rparr>"

text \<open>
  When no question is left the user may type \<^verbatim>\<open>e\<close>: the top item is eliminated and the
  pool sorted again, nothing else changes.
\<close>

definition manual_eliminate :: "EngineState \<Rightarrow> py_error + EngineState" where
  "manual_eliminate state =
     (case candidates state of
        [] \<Rightarrow> Inl IndexError
      | m0 # rest \<Rightarrow>
          Inr (sort_candidates
                 (case movie_id m0 of None \<Rightarrow> state | Some mid \<Rightarrow> eliminate_movie state mid)))"

text \<open>
  A session is the current state and the undo history (most recent snapshot first). The
  events are what the user can make the loop do: answer the chosen question, answer a
  targeted question, reject a guess, eliminate the top item by hand, undo. Every
  answered question pushes a snapshot first; undo on an empty history changes nothing.
\<close>

datatype event =
    Answer Question string
  | TargetedAnswer Question string
  | RejectGuess
  | ManualEliminate
  | Undo

type_synonym session = "EngineState \<times> EngineState list"

fun step :: "args \<Rightarrow> session \<Rightarrow> event \<Rightarrow> py_error + session" where
  "step a (state, history) (Answer q ans) =
     (case answer_turn a state q ans of
        Inl e \<Rightarrow> Inl e
      | Inr s' \<Rightarrow> Inr (s', snapshot_state state # history))"
| "step a (state, history) (TargetedAnswer tq ans) =
     Inr (targeted_answer_turn a state tq ans, snapshot_state state # history)"
| "step a (state, history) RejectGuess =
     (case reject_guess a state of Inl e \<Rightarrow> Inl e | Inr s' \<Rightarrow> Inr (s', history))"
| "step a (state, history) ManualEliminate =
     (case manual_eliminate state of Inl e \<Rightarrow> Inl e | Inr s' \<Rightarrow> Inr (s', history))"
| "step a (state, history) Undo =
     (case history of [] \<Rightarrow> Inr (state, []) | h # hs \<Rightarrow> Inr (h, hs))"

fun run :: "args \<Rightarrow> session \<Rightarrow> event list \<Rightarrow> py_error + session" where
  "run a c [] = Inr c"
| "run a c (e # es) = (case step a c e of Inl err \<Rightarrow> Inl err | Inr c' \<Rightarrow> run a c' es)"

text \<open>
  The start of \<^verbatim>\<open>main\<close>: the initial state, sorted, with the streak set on the top item
  and an empty history.
\<close>

definition start_session :: "movie list \<Rightarrow> session" where
  "start_session movies =
     (let s = sort_candidates (init_state movies)
      in (s\<lparr>top_streak_mid := top_mid s, top_streak_len := 0\<rparr>, []))"


text \<open>
  The strike tables of a session: the one of the current state and those of the
  snapshots in the history.
\<close>

definition no_strikes :: "session \<Rightarrow> bool" where
  "no_strikes c = (strikes (fst c) = Map.empty \<and> list_all (\<lambda>x. strikes x = Map.empty) (snd c))"


section \<open>Scoring and choosing questions\<close>

text \<open>
  \<^verbatim>\<open>split_counts\<close>: how many items answer true, false and unknown. \<^verbatim>\<open>entropy_split\<close>
  and \<^verbatim>\<open>Question.score\<close> are floating-point in the source; the model computes them
  over the reals.
\<close>

definition split_counts :: "movie list \<Rightarrow> (movie \<Rightarrow> bool option) \<Rightarrow> nat \<times> nat \<times> nat" where
  "split_counts cs p =
     (length (filter (\<lambda>m. p m = Some True) cs),
      length (filter (\<lambda>m. p m = Some False) cs),
      length (filter (\<lambda>m. p m = None) cs))"

definition entropy_split :: "nat \<Rightarrow> nat \<Rightarrow> real" where
  "entropy_split yes no =
     (let n = yes + no;
          h = (\<lambda>x::nat. if x = 0 then 0 else - (real x / real n) * log 2 (real x / real n))
      in if n = 0 then 0 else h yes + h no)"

definition score :: "Question \<Rightarrow> movie list \<Rightarrow> real" where
  "score q cs =
     (let sample = (if length cs > 500 then take 500 cs else cs);
          (yes, no, unk) = split_counts sample (predicate q)
      in if (yes = 0 \<and> unk = 0) \<or> (no = 0 \<and> unk = 0) then - 1
         else
           (let base = entropy_split yes no;
                n = length sample;
                unk_ratio = (if n \<noteq> 0 then real unk / real n else 1);
                s = base - (35 / 100) * unk_ratio;
                k = key q
            in if startswith k ''validate_'' then s * 50
               else if startswith k ''language_'' then s * 100
               else if startswith_any k [''director_'', ''dyn_director_''] then s * (3 / 2)
               else if startswith k ''franchise_'' then s * (16 / 10)
               else if startswith k ''char_'' then s * (135 / 100)
               else if startswith_any k [''actor_'', ''dyn_actor_'']
                 then (if 0 < yes \<and> yes < n then s * (13 / 10) else s)
               else if startswith_any k [''location_'', ''event_'', ''object_''] then s * (125 / 100)
               else if startswith k ''joker_title_'' \<and> n \<le> 10 then s * (12 / 10)
               else s))"

text \<open>
  \<^verbatim>\<open>count_recent_type\<close> counts a type among the last \<^verbatim>\<open>window\<close> recent types (the
  slice \<^verbatim>\<open>xs[-window:]\<close>, which is the whole list for a window of 0);
  \<^verbatim>\<open>should_diversify\<close> never penalises language and validation questions.
\<close>

definition last_n :: "nat \<Rightarrow> 'a list \<Rightarrow> 'a list" where
  "last_n n xs = (if n = 0 then xs else drop (length xs - n) xs)"

definition count_recent_type :: "EngineState \<Rightarrow> string \<Rightarrow> nat \<Rightarrow> nat" where
  "count_recent_type state q_type window =
     (if recent_question_types state = [] then 0
      else count_list (last_n window (recent_question_types state)) q_type)"

definition should_diversify :: "EngineState \<Rightarrow> Question \<Rightarrow> nat \<Rightarrow> bool" where
  "should_diversify state q max_consecutive =
     (let q_type = get_question_type q in
      if q_type \<in> {''language'', ''validation''} then False
      else if count_recent_type state q_type max_consecutive \<ge> max_consecutive then True
      else if length (recent_question_types state) \<ge> 5 \<and>
              (let last_5 = last_n 5 (recent_question_types state)
               in card (set last_5) < 3 \<and> count_list last_5 q_type \<ge> 2) then True
      else False)"

definition contradictions :: "(string \<times> string) list" where
  "contradictions =
     [(''big_budget'', ''small_budget''), (''small_budget'', ''big_budget''),
      (''runtime_lt_90'', ''runtime_ge_150''), (''runtime_ge_150'', ''runtime_lt_90''),
      (''is_animation'', ''is_live_action''), (''is_live_action'', ''is_animation''),
      (''is_saga'', ''is_standalone''), (''is_standalone'', ''is_saga''),
      (''after_1980'', ''before_1970''), (''after_2000'', ''before_1990''),
      (''after_2020'', ''before_2010'')]"

text \<open>
  The filter of \<^verbatim>\<open>choose_best_question\<close>: a question is skipped when its key was asked,
  when a non-empty \<^verbatim>\<open>requires\<close> is not within the asked keys, when \<^verbatim>\<open>excludes\<close> meets
  them, when it is a joker and a joker was asked, or when its contradiction partner was
  asked.
\<close>

definition jokers_used :: "string set \<Rightarrow> bool" where
  "jokers_used asked_keys = (\<exists>k \<in> asked_keys. startswith k ''joker_title_'')"

definition valid_question :: "string set \<Rightarrow> Question \<Rightarrow> bool" where
  "valid_question asked_keys q =
     (if key q \<in> asked_keys then False
      else if (case requires q of None \<Rightarrow> False | Some r \<Rightarrow> r \<noteq> {} \<and> \<not> r \<subseteq> asked_keys) then False
      else if (case excludes q of None \<Rightarrow> False | Some x \<Rightarrow> x \<inter> asked_keys \<noteq> {}) then False
      else if startswith (key q) ''joker_title_'' \<and> jokers_used asked_keys then False
      else if (case map_of contradictions (key q) of None \<Rightarrow> False | Some c \<Rightarrow> c \<in> asked_keys)
        then False
      else True)"

text \<open>
  \<^verbatim>\<open>choose_best_question\<close>. At most the first 150 valid questions are scored; a question
  is kept when its score is positive, with the score divided by 100 when
  \<^verbatim>\<open>should_diversify\<close> says so; the list is sorted by decreasing score (stable). The
  first question of a session is drawn by \<^verbatim>\<open>random.choice\<close> among the five best when
  there are five: the draw is the parameter \<open>pick\<close>. The state is the one \<^verbatim>\<open>main\<close>
  always passes.
\<close>

definition scored_questions :: "EngineState \<Rightarrow> movie list \<Rightarrow> Question list \<Rightarrow> (Question \<times> real) list" where
  "scored_questions state cs qs =
     List.map_filter
       (\<lambda>q. let s = score q cs in
             if s > 0 then Some (q, if should_diversify state q 2 then s * (1 / 100) else s)
             else None)
       qs"

definition choose_best_question ::
    "nat \<Rightarrow> movie list \<Rightarrow> Question list \<Rightarrow> string set \<Rightarrow> bool \<Rightarrow> EngineState \<Rightarrow> Question option" where
  "choose_best_question pick cs questions asked_keys is_first_question state =
     (let valid_questions = filter (valid_question asked_keys) questions in
      if valid_questions = [] then None
      else
        (let valid_150 = (if length valid_questions > 150 then take 150 valid_questions
                          else valid_questions);
             scored = sort_key (\<lambda>x. - snd x) (scored_questions state cs valid_150)
         in if scored = [] then None
            else if is_first_question \<and> length scored \<ge> 5
              then Some (fst (take 5 scored ! (pick mod 5)))
            else Some (fst (hd scored))))"

text \<open>
  \<^verbatim>\<open>get_discriminating_questions\<close>, on the list of all questions it builds: the unasked
  ones with a score above 0.1, best first, \<^verbatim>\<open>count\<close> (here \<open>cnt\<close>) of them.
\<close>

definition get_discriminating_questions ::
    "Question list \<Rightarrow> movie list \<Rightarrow> string set \<Rightarrow> nat \<Rightarrow> Question list" where
  "get_discriminating_questions all_questions cs asked_keys cnt =
     (let available = filter (\<lambda>q. key q \<notin> asked_keys) all_questions;
          scored = filter (\<lambda>x. snd x > 1 / 10) (map (\<lambda>q. (q, score q cs)) available)
      in map fst (take cnt (sort_key (\<lambda>x. - snd x) scored)))"

text \<open>The keys of the static questions of \<^verbatim>\<open>default_questions\<close>, in their order.\<close>

definition default_question_keys :: "string list" where
  "default_question_keys =
     [''is_animation'', ''is_live_action'', ''is_short'', ''is_feature'',
      ''decade_1970s'', ''decade_1980s'', ''decade_1990s'', ''decade_2000s'',
      ''decade_2010s'', ''decade_2020s'', ''before_2000'', ''after_2010'',
      ''genre_action'', ''genre_adventure'', ''genre_comedy'', ''genre_drama'',
      ''genre_fantasy'', ''genre_horror'', ''genre_mystery'', ''genre_romance'',
      ''genre_scifi'', ''genre_thriller'', ''genre_crime'', ''genre_family'', ''genre_war'',
      ''genre_history'', ''genre_music'', ''genre_documentary'', ''is_adult'',
      ''runtime_lt_90'', ''runtime_ge_150'', ''is_american'', ''is_french'', ''is_european'',
      ''is_asian'', ''language_en'', ''language_fr'', ''language_ja'', ''language_es'',
      ''language_de'', ''language_it'', ''language_ko'', ''language_zh'', ''popular'',
      ''very_popular'', ''big_budget'', ''small_budget'', ''box_office_success'', ''is_indie'',
      ''is_saga'', ''is_standalone'', ''is_adaptation'', ''based_on_book'', ''based_on_comic'',
      ''based_on_true_story'', ''superhero'', ''joker_title_a_d'', ''joker_title_e_h'',
      ''joker_title_i_l'', ''joker_title_m_p'', ''joker_title_q_t'', ''joker_title_u_z'',
      ''director_nolan'', ''director_spielberg'', ''director_tarantino'', ''director_scorsese'',
      ''director_fincher'', ''director_cameron'', ''director_jackson'', ''director_ridley_scott'',
      ''director_chris_columbus'', ''director_david_yates'', ''franchise_marvel'',
      ''franchise_star_wars'', ''franchise_harry_potter'', ''franchise_wizarding_world'',
      ''franchise_lord_rings'', ''franchise_hobbit'', ''franchise_batman'', ''franchise_bond'',
      ''franchise_jurassic'', ''franchise_fast_furious'', ''franchise_pirates'',
      ''franchise_xmen'', ''franchise_avengers'', ''franchise_dc'', ''char_batman'',
      ''char_superman'', ''char_spider_man'', ''char_iron_man'', ''char_captain_america'',
      ''char_joker'', ''char_terminator'', ''char_harry_potter'', ''char_frodo'',
      ''char_jack_sparrow'', ''actor_tom_hanks'', ''actor_leonardo_dicaprio'',
      ''actor_brad_pitt'', ''actor_meryl_streep'', ''actor_robert_de_niro'', ''actor_al_pacino'',
      ''actor_johnny_depp'', ''actor_will_smith'', ''actor_denzel_washington'',
      ''actor_morgan_freeman'', ''actor_samuel_l_jackson'', ''actor_scarlett_johansson'',
      ''actor_daniel_radcliffe'', ''actor_emma_watson'', ''actor_rupert_grint'',
      ''actor_alan_rickman'', ''actor_elijah_wood'', ''actor_orlando_bloom'', ''theme_school'',
      ''theme_magic_school'', ''theme_wizard'', ''theme_prophecy'', ''theme_chosen_one'',
      ''theme_good_vs_evil'', ''theme_friendship'', ''theme_coming_of_age'']"

text \<open>The language questions are the static questions whose key starts with \<^verbatim>\<open>language_\<close>.\<close>

definition language_question_keys :: "string list" where
  "language_question_keys = filter (\<lambda>k. startswith k ''language_'') default_question_keys"


section \<open>Predicates over the enriched records\<close>

text \<open>
  \<^verbatim>\<open>get_details(conn, movie_id)\<close> returns the enriched record of an identifier, and the
  empty dict for an identifier the database does not know. The model keeps what the
  predicates below read: the name of the collection as \<^verbatim>\<open>str\<close> gives it
  (\<^verbatim>\<open>belongs_to_collection\<close>, missing when the movie has none), the keyword names and the
  cast names in billing order; a
  missing list reads as the empty list, as \<^verbatim>\<open>.get(..., [])\<close> does. The database is a
  map from identifiers to records.
\<close>

record details =
  belongs_to_collection :: "string option"
  keyword_names :: "string list"
  cast_names :: "string list"

definition empty_details :: details where
  "empty_details = \<lparr> belongs_to_collection = None, keyword_names = [], cast_names = [] \<rparr>"

definition get_details :: "(int \<rightharpoonup> details) \<Rightarrow> int \<Rightarrow> details" where
  "get_details db mid = (case db mid of None \<Rightarrow> empty_details | Some d \<Rightarrow> d)"

text \<open>
  \<^verbatim>\<open>str.lower()\<close> on ASCII letters, and Python's \<^verbatim>\<open>sub in s\<close> on strings.
\<close>

definition lower_char :: "char \<Rightarrow> char" where
  "lower_char c =
     (let n = (of_char c :: nat) in if 65 \<le> n \<and> n \<le> 90 then char_of (n + 32) else c)"

definition lower :: "string \<Rightarrow> string" where
  "lower s = map lower_char s"

fun contains :: "string \<Rightarrow> string \<Rightarrow> bool" where
  "contains [] sub = (sub = [])"
| "contains (c # cs) sub = (prefix sub (c # cs) \<or> contains cs sub)"

text \<open>\<^verbatim>\<open>str(m.get("title", "")).lower()\<close>\<close>

definition title_lower :: "movie \<Rightarrow> string" where
  "title_lower m = lower (case title m of None \<Rightarrow> [] | Some t \<Rightarrow> t)"

text \<open>
  \<^verbatim>\<open>pred_franchise_name\<close>: title, then collection, then keywords; when nothing matches,
  false only if there is a collection or a keyword, unknown otherwise.
\<close>

definition pred_franchise_name :: "(int \<rightharpoonup> details) \<Rightarrow> string \<Rightarrow> movie \<Rightarrow> bool option" where
  "pred_franchise_name db franchise m =
     (let fn = lower franchise in
      case movie_id m of
        None \<Rightarrow> None
      | Some mid \<Rightarrow>
          if contains (title_lower m) fn then Some True
          else
            (let d = get_details db mid;
                 collection = belongs_to_collection d
             in if (case collection of None \<Rightarrow> False | Some cn \<Rightarrow> contains (lower cn) fn)
                then Some True
                else if list_ex (\<lambda>kw. contains (lower kw) fn) (keyword_names d) then Some True
                else if collection \<noteq> None \<or> keyword_names d \<noteq> [] then Some False
                else None))"

text \<open>
  \<^verbatim>\<open>pred_is_harry_potter\<close>: title, collection, keywords, then at least two of the three
  lead actors among the first five cast names; its last line is \<^verbatim>\<open>return False\<close>.
\<close>

definition hp_actors :: "string list" where
  "hp_actors = [''daniel radcliffe'', ''emma watson'', ''rupert grint'']"

definition pred_is_harry_potter :: "(int \<rightharpoonup> details) \<Rightarrow> movie \<Rightarrow> bool option" where
  "pred_is_harry_potter db m =
     (if contains (title_lower m) ''harry potter'' then Some True
      else
        case movie_id m of
          None \<Rightarrow> None
        | Some mid \<Rightarrow>
            (let d = get_details db mid in
             if (case belongs_to_collection d of
                   None \<Rightarrow> False
                 | Some cn \<Rightarrow> contains (lower cn) ''harry potter'' \<or>
                              contains (lower cn) ''wizarding world'')
             then Some True
             else if list_ex (\<lambda>kw. contains (lower kw) ''harry potter'' \<or>
                                    contains (lower kw) ''hogwarts'') (keyword_names d)
             then Some True
             else
               (let top_actors = map lower (take 5 (cast_names d));
                    matches = length (filter (\<lambda>actor. list_ex (\<lambda>ta. contains ta actor) top_actors)
                                        hp_actors)
                in if matches \<ge> 2 then Some True else Some False)))"

text \<open>A movie that has an identifier and nothing else, in a database that knows nothing.\<close>

definition bare_movie :: movie where
  "bare_movie = \<lparr> movie_id = Some 7, title = None, original_language = None, popularity = None \<rparr>"


section \<open>The state as Python objects: a store with references\<close>

text \<open>
  \<^verbatim>\<open>main\<close> mutates the state in place and keeps snapshots of it in \<^verbatim>\<open>history\<close>. Whether
  a snapshot survives the next answer depends on which objects are shared, so this part
  models the objects themselves. An \<^verbatim>\<open>EngineState\<close> instance holds references to its
  containers (the pool list, the asked set, the score and strike dicts, the list of
  recent types) and its numbers by value; the store maps references to contents, and
  \<open>next_ref\<close> is the next unused reference. Movies are never mutated and stay values.
\<close>

type_synonym ref = nat

record EngineStateObj =
  candidates_ref :: ref
  asked_ref :: ref
  scores_ref :: ref
  strikes_ref :: ref
  question_count_val :: int
  guess_cooldown_val :: int
  top_streak_mid_val :: "int option"
  top_streak_len_val :: int
  consecutive_guesses_val :: int
  recent_ref :: ref

record store =
  movie_lists :: "ref \<Rightarrow> movie list"
  key_sets :: "ref \<Rightarrow> string set"
  score_dicts :: "ref \<Rightarrow> (int \<rightharpoonup> rat)"
  strike_dicts :: "ref \<Rightarrow> (int \<rightharpoonup> int)"
  type_lists :: "ref \<Rightarrow> string list"
  objects :: "ref \<Rightarrow> EngineStateObj"
  next_ref :: ref

text \<open>Creating an object: its contents go to the next unused reference.\<close>

definition new_movie_list :: "store \<Rightarrow> movie list \<Rightarrow> store \<times> ref" where
  "new_movie_list h xs =
     (h\<lparr>movie_lists := (movie_lists h)(next_ref h := xs), next_ref := next_ref h + 1\<rparr>, next_ref h)"

definition new_key_set :: "store \<Rightarrow> string set \<Rightarrow> store \<times> ref" where
  "new_key_set h ks =
     (h\<lparr>key_sets := (key_sets h)(next_ref h := ks), next_ref := next_ref h + 1\<rparr>, next_ref h)"

definition new_score_dict :: "store \<Rightarrow> (int \<rightharpoonup> rat) \<Rightarrow> store \<times> ref" where
  "new_score_dict h d =
     (h\<lparr>score_dicts := (score_dicts h)(next_ref h := d), next_ref := next_ref h + 1\<rparr>, next_ref h)"

definition new_strike_dict :: "store \<Rightarrow> (int \<rightharpoonup> int) \<Rightarrow> store \<times> ref" where
  "new_strike_dict h d =
     (h\<lparr>strike_dicts := (strike_dicts h)(next_ref h := d), next_ref := next_ref h + 1\<rparr>, next_ref h)"

definition new_type_list :: "store \<Rightarrow> string list \<Rightarrow> store \<times> ref" where
  "new_type_list h ts =
     (h\<lparr>type_lists := (type_lists h)(next_ref h := ts), next_ref := next_ref h + 1\<rparr>, next_ref h)"

definition new_object :: "store \<Rightarrow> EngineStateObj \<Rightarrow> store \<times> ref" where
  "new_object h ob =
     (h\<lparr>objects := (objects h)(next_ref h := ob), next_ref := next_ref h + 1\<rparr>, next_ref h)"

text \<open>Reading the whole state behind a reference: the value the pure model works on.\<close>

definition view :: "store \<Rightarrow> ref \<Rightarrow> EngineState" where
  "view h r =
     (let ob = objects h r in
      \<lparr> candidates = movie_lists h (candidates_ref ob),
        asked = key_sets h (asked_ref ob),
        scores = score_dicts h (scores_ref ob),
        strikes = strike_dicts h (strikes_ref ob),
        question_count = question_count_val ob,
        guess_cooldown = guess_cooldown_val ob,
        top_streak_mid = top_streak_mid_val ob,
        top_streak_len = top_streak_len_val ob,
        consecutive_guesses = consecutive_guesses_val ob,
        recent_question_types = type_lists h (recent_ref ob) \<rparr>)"

text \<open>
  \<^verbatim>\<open>snapshot_state(state)\<close>: \<^verbatim>\<open>list(...)\<close>, \<^verbatim>\<open>set(...)\<close>, \<^verbatim>\<open>dict(...)\<close>, \<^verbatim>\<open>dict(...)\<close> and
  \<^verbatim>\<open>list(...)\<close> create five new containers with the old contents, in the order of the
  arguments; then the new \<^verbatim>\<open>EngineState\<close> is created.
\<close>

definition snapshot_state_obj :: "store \<Rightarrow> ref \<Rightarrow> store \<times> ref" where
  "snapshot_state_obj h r =
     (let ob = objects h r;
          (h1, c) = new_movie_list h (movie_lists h (candidates_ref ob));
          (h2, a) = new_key_set h1 (key_sets h1 (asked_ref ob));
          (h3, s) = new_score_dict h2 (score_dicts h2 (scores_ref ob));
          (h4, t) = new_strike_dict h3 (strike_dicts h3 (strikes_ref ob));
          (h5, ty) = new_type_list h4 (type_lists h4 (recent_ref ob))
      in new_object h5
           \<lparr> candidates_ref = c, asked_ref = a, scores_ref = s, strikes_ref = t,
             question_count_val = question_count_val ob,
             guess_cooldown_val = guess_cooldown_val ob,
             top_streak_mid_val = top_streak_mid_val ob,
             top_streak_len_val = top_streak_len_val ob,
             consecutive_guesses_val = consecutive_guesses_val ob,
             recent_ref = ty \<rparr>)"

text \<open>
  Assigning a new container to a field of the state object (\<^verbatim>\<open>state.candidates = ...\<close>
  and the like): the container is created, then the field refers to it.
\<close>

definition assign_candidates :: "store \<Rightarrow> ref \<Rightarrow> movie list \<Rightarrow> store" where
  "assign_candidates h r xs =
     (let (h1, c) = new_movie_list h xs
      in h1\<lparr>objects := (objects h1)(r := (objects h1 r)\<lparr>candidates_ref := c\<rparr>)\<rparr>)"

definition assign_scores :: "store \<Rightarrow> ref \<Rightarrow> (int \<rightharpoonup> rat) \<Rightarrow> store" where
  "assign_scores h r d =
     (let (h1, c) = new_score_dict h d
      in h1\<lparr>objects := (objects h1)(r := (objects h1 r)\<lparr>scores_ref := c\<rparr>)\<rparr>)"

definition assign_strikes :: "store \<Rightarrow> ref \<Rightarrow> (int \<rightharpoonup> int) \<Rightarrow> store" where
  "assign_strikes h r d =
     (let (h1, c) = new_strike_dict h d
      in h1\<lparr>objects := (objects h1)(r := (objects h1 r)\<lparr>strikes_ref := c\<rparr>)\<rparr>)"

definition assign_recent :: "store \<Rightarrow> ref \<Rightarrow> string list \<Rightarrow> store" where
  "assign_recent h r ts =
     (let (h1, c) = new_type_list h ts
      in h1\<lparr>objects := (objects h1)(r := (objects h1 r)\<lparr>recent_ref := c\<rparr>)\<rparr>)"

text \<open>
  Changing a container of the state in place (\<^verbatim>\<open>add\<close>, \<^verbatim>\<open>append\<close>, item assignment,
  \<^verbatim>\<open>pop\<close>, \<^verbatim>\<open>sort\<close>), and changing the numbers held by the state object.
\<close>

definition add_asked :: "store \<Rightarrow> ref \<Rightarrow> string set \<Rightarrow> store" where
  "add_asked h r ks =
     h\<lparr>key_sets := (key_sets h)(asked_ref (objects h r) := key_sets h (asked_ref (objects h r)) \<union> ks)\<rparr>"

definition write_candidates :: "store \<Rightarrow> ref \<Rightarrow> movie list \<Rightarrow> store" where
  "write_candidates h r xs = h\<lparr>movie_lists := (movie_lists h)(candidates_ref (objects h r) := xs)\<rparr>"

definition write_scores :: "store \<Rightarrow> ref \<Rightarrow> (int \<rightharpoonup> rat) \<Rightarrow> store" where
  "write_scores h r d = h\<lparr>score_dicts := (score_dicts h)(scores_ref (objects h r) := d)\<rparr>"

definition write_strikes :: "store \<Rightarrow> ref \<Rightarrow> (int \<rightharpoonup> int) \<Rightarrow> store" where
  "write_strikes h r d = h\<lparr>strike_dicts := (strike_dicts h)(strikes_ref (objects h r) := d)\<rparr>"

definition write_recent :: "store \<Rightarrow> ref \<Rightarrow> string list \<Rightarrow> store" where
  "write_recent h r ts = h\<lparr>type_lists := (type_lists h)(recent_ref (objects h r) := ts)\<rparr>"

definition set_numbers :: "store \<Rightarrow> ref \<Rightarrow> int \<Rightarrow> int \<Rightarrow> int option \<Rightarrow> int \<Rightarrow> int \<Rightarrow> store" where
  "set_numbers h r qc gc sm sl cg =
     h\<lparr>objects := (objects h)
          (r := (objects h r)\<lparr>question_count_val := qc, guess_cooldown_val := gc,
                               top_streak_mid_val := sm, top_streak_len_val := sl,
                               consecutive_guesses_val := cg\<rparr>)\<rparr>"

text \<open>
  The bookkeeping of an answered question on the objects: \<^verbatim>\<open>state.asked.add\<close> and
  \<^verbatim>\<open>state.recent_question_types.append\<close> change the containers in place; the slice
  \<^verbatim>\<open>state.recent_question_types[-10:]\<close> is a new list; the counters are fields of the
  state object.
\<close>

definition note_recent_obj :: "store \<Rightarrow> ref \<Rightarrow> Question \<Rightarrow> store" where
  "note_recent_obj h r q =
     (let types = type_lists h (recent_ref (objects h r)) @ [get_question_type q];
          h1 = write_recent h r types
      in if length types > 10 then assign_recent h1 r (drop (length types - 10) types) else h1)"

definition note_language_obj :: "store \<Rightarrow> ref \<Rightarrow> Question \<Rightarrow> string \<Rightarrow> store" where
  "note_language_obj h r q ans =
     (if ans = ''y'' \<and> startswith (key q) ''language_''
      then add_asked h r (all_languages - {key q}) else h)"

definition note_counters_obj :: "store \<Rightarrow> ref \<Rightarrow> store" where
  "note_counters_obj h r =
     (let ob = objects h r;
          gc = guess_cooldown_val ob
      in set_numbers h r (question_count_val ob + 1) (if gc > 0 then gc - 1 else gc)
           (top_streak_mid_val ob) (top_streak_len_val ob) 0)"

definition note_question_obj :: "store \<Rightarrow> ref \<Rightarrow> Question \<Rightarrow> string \<Rightarrow> store" where
  "note_question_obj h r q ans =
     note_counters_obj (note_language_obj (note_recent_obj (add_asked h r {key q}) r q) r q ans) r"

text \<open>
  \<^verbatim>\<open>update_state_with_answer\<close> on the objects. In the \<^verbatim>\<open>"y"\<close> and \<^verbatim>\<open>"n"\<close> branches the
  loop writes into the score dict of the state, then \<^verbatim>\<open>to_keep\<close> and the two rebuilt
  dicts are new objects assigned to the fields. The other branches write into the score
  dict in place.
\<close>

definition keep_only_obj :: "store \<Rightarrow> ref \<Rightarrow> (int \<rightharpoonup> rat) \<times> movie list \<Rightarrow> store" where
  "keep_only_obj h r res =
     (let old_strikes = strike_dicts h (strikes_ref (objects h r));
          h1 = write_scores h r (fst res);
          h2 = assign_candidates h1 r (snd res);
          h3 = assign_scores h2 r (fst res |` remaining_ids (snd res))
      in assign_strikes h3 r (old_strikes |` remaining_ids (snd res)))"

definition apply_answer_obj :: "store \<Rightarrow> ref \<Rightarrow> Question \<Rightarrow> string \<Rightarrow> store" where
  "apply_answer_obj h r q ans =
     (let cs = movie_lists h (candidates_ref (objects h r));
          sc = score_dicts h (scores_ref (objects h r))
      in if ans = ''y'' then keep_only_obj h r (fold (yes_step q) cs (sc, []))
         else if ans = ''n'' then keep_only_obj h r (fold (no_step q) cs (sc, []))
         else if ans = ''py'' then write_scores h r (fold (py_step q) cs sc)
         else if ans = ''pn'' then write_scores h r (fold (pn_step q) cs sc)
         else if ans = ''?'' then write_scores h r (fold (unknown_step q) cs sc)
         else h)"

text \<open>
  The strike pass: the list comprehension is a new list, \<^verbatim>\<open>pop\<close> works in place.
  \<^verbatim>\<open>sort_candidates\<close> sorts the pool list in place.
\<close>

definition strike_elimination_obj :: "store \<Rightarrow> ref \<Rightarrow> int \<Rightarrow> store" where
  "strike_elimination_obj h r max_strikes =
     (let v = view h r;
          tr = to_remove v max_strikes
      in if tr = [] then h
         else
           (let h1 = assign_candidates h r (filter (\<lambda>m. movie_id m \<notin> Some ` set tr) (candidates v));
                h2 = write_scores h1 r (fold (\<lambda>mid sc. sc(mid := None)) tr (scores v))
            in write_strikes h2 r (fold (\<lambda>mid st. st(mid := None)) tr (strikes v))))"

definition sort_candidates_obj :: "store \<Rightarrow> ref \<Rightarrow> store" where
  "sort_candidates_obj h r =
     write_candidates h r (sort_key (key_func (view h r)) (candidates (view h r)))"

definition update_state_with_answer_obj :: "store \<Rightarrow> ref \<Rightarrow> Question \<Rightarrow> string \<Rightarrow> int \<Rightarrow> store" where
  "update_state_with_answer_obj h r q ans max_strikes =
     (let h1 = apply_answer_obj h r q ans;
          h2 = (if \<not> is_hard_elimination q then strike_elimination_obj h1 r max_strikes else h1)
      in sort_candidates_obj h2 r)"

definition update_streak_obj :: "store \<Rightarrow> ref \<Rightarrow> py_error + store" where
  "update_streak_obj h r =
     (let ob = objects h r in
      case movie_lists h (candidates_ref ob) of
        [] \<Rightarrow> Inl IndexError
      | m0 # rest \<Rightarrow>
          Inr (case movie_id m0 of
                 None \<Rightarrow> h
               | Some mid \<Rightarrow>
                   if top_streak_mid_val ob = Some mid
                   then set_numbers h r (question_count_val ob) (guess_cooldown_val ob)
                          (Some mid) (top_streak_len_val ob + 1) (consecutive_guesses_val ob)
                   else set_numbers h r (question_count_val ob) (guess_cooldown_val ob)
                          (Some mid) 1 (consecutive_guesses_val ob)))"

text \<open>
  An answered question and an undo, on the variables \<^verbatim>\<open>state\<close> and \<^verbatim>\<open>history\<close> of
  \<^verbatim>\<open>main\<close> (references; the end of the Python list is the head here):
  an answered question appends \<^verbatim>\<open>snapshot_state(state)\<close> and then changes the state
  object; \<^verbatim>\<open>u\<close> makes \<^verbatim>\<open>state\<close> the popped snapshot, or reports when there is none.
\<close>

record session_obj =
  heap :: store
  state_var :: ref
  history_var :: "ref list"

definition answer_obj :: "args \<Rightarrow> session_obj \<Rightarrow> Question \<Rightarrow> string \<Rightarrow> py_error + session_obj" where
  "answer_obj a c q ans =
     (let (h1, snap) = snapshot_state_obj (heap c) (state_var c);
          r = state_var c;
          h2 = note_question_obj h1 r q ans;
          h3 = update_state_with_answer_obj h2 r q ans (max_strikes_of a)
      in case update_streak_obj h3 r of
           Inl e \<Rightarrow> Inl e
         | Inr h4 \<Rightarrow> Inr \<lparr> heap = h4, state_var = r, history_var = snap # history_var c \<rparr>)"

definition undo_obj :: "session_obj \<Rightarrow> session_obj" where
  "undo_obj c =
     (case history_var c of
        [] \<Rightarrow> c
      | snap # rest \<Rightarrow> c\<lparr>state_var := snap, history_var := rest\<rparr>)"

text \<open>
  The start of \<^verbatim>\<open>main\<close> on the objects: \<^verbatim>\<open>init_state\<close> builds the score dict, takes
  the list of movies as the pool and creates the empty containers and the state object;
  the pool is sorted and the streak is set on the top item.
\<close>

definition empty_store :: store where
  "empty_store =
     \<lparr> movie_lists = (\<lambda>x. []), key_sets = (\<lambda>x. {}), score_dicts = (\<lambda>x. Map.empty),
       strike_dicts = (\<lambda>x. Map.empty), type_lists = (\<lambda>x. []),
       objects = (\<lambda>x. \<lparr> candidates_ref = 0, asked_ref = 0, scores_ref = 0, strikes_ref = 0,
                          question_count_val = 0, guess_cooldown_val = 0,
                          top_streak_mid_val = None, top_streak_len_val = 0,
                          consecutive_guesses_val = 0, recent_ref = 0 \<rparr>),
       next_ref = 0 \<rparr>"

definition init_state_obj :: "store \<Rightarrow> movie list \<Rightarrow> store \<times> ref" where
  "init_state_obj h movies =
     (let (h1, c) = new_movie_list h movies;
          (h2, s) = new_score_dict h1 (init_scores movies);
          (h3, a) = new_key_set h2 {};
          (h4, t) = new_strike_dict h3 Map.empty;
          (h5, ty) = new_type_list h4 []
      in new_object h5
           \<lparr> candidates_ref = c, asked_ref = a, scores_ref = s, strikes_ref = t,
             question_count_val = 0, guess_cooldown_val = 0, top_streak_mid_val = None,
             top_streak_len_val = 0, consecutive_guesses_val = 0, recent_ref = ty \<rparr>)"

definition start_session_obj :: "movie list \<Rightarrow> session_obj" where
  "start_session_obj movies =
     (let (h, r) = init_state_obj empty_store movies;
          h1 = sort_candidates_obj h r;
          ob = objects h1 r
      in \<lparr> heap = set_numbers h1 r (question_count_val ob) (guess_cooldown_val ob)
                   (top_mid (view h1 r)) 0 (consecutive_guesses_val ob),
           state_var = r, history_var = [] \<rparr>)"

text \<open>
  A state object is well formed in a store when it and its containers exist, that is,
  their references are below \<open>next_ref\<close>.
\<close>

definition obj_refs :: "EngineStateObj \<Rightarrow> ref set" where
  "obj_refs ob = {candidates_ref ob, asked_ref ob, scores_ref ob, strikes_ref ob, recent_ref ob}"

definition allocated :: "store \<Rightarrow> ref \<Rightarrow> bool" where
  "allocated h r = (r < next_ref h \<and> (\<forall>x \<in> obj_refs (objects h r). x < next_ref h))"

text \<open>
  The objects of a set \<open>F\<close> of references are untouched between two stores, and a state
  object lives apart from \<open>F\<close>.
\<close>

definition same_on :: "ref set \<Rightarrow> store \<Rightarrow> store \<Rightarrow> bool" where
  "same_on F h h' =
     (\<forall>x \<in> F. movie_lists h' x = movie_lists h x \<and> key_sets h' x = key_sets h x \<and>
        score_dicts h' x = score_dicts h x \<and> strike_dicts h' x = strike_dicts h x \<and>
        type_lists h' x = type_lists h x \<and> objects h' x = objects h x)"

definition apart :: "ref set \<Rightarrow> store \<Rightarrow> ref \<Rightarrow> bool" where
  "apart F h r =
     (r \<notin> F \<and> obj_refs (objects h r) \<inter> F = {} \<and> (\<forall>x \<in> F. x < next_ref h))"


definition kept :: "ref set \<Rightarrow> ref \<Rightarrow> store \<Rightarrow> store \<Rightarrow> bool" where
  "kept F r h h' = (apart F h' r \<and> same_on F h h')"

section \<open>Example data\<close>

text \<open>\<^verbatim>\<open>pred_language\<close>: unknown when the language is missing or empty.\<close>

definition pred_language :: "string \<Rightarrow> movie \<Rightarrow> bool option" where
  "pred_language lang_code m =
     (case original_language m of
        None \<Rightarrow> None
      | Some lang \<Rightarrow> if lang = [] then None else Some (lang = lang_code))"

definition question :: "string \<Rightarrow> (movie \<Rightarrow> bool option) \<Rightarrow> Question" where
  "question k p = \<lparr> key = k, text_of = [], predicate = p, requires = None, excludes = None \<rparr>"

definition language_fr :: Question where
  "language_fr = question ''language_fr'' (pred_language ''fr'')"

definition mk_movie :: "int \<Rightarrow> string \<Rightarrow> string option \<Rightarrow> rat \<Rightarrow> movie" where
  "mk_movie i t l p =
     \<lparr> movie_id = Some i, title = Some t, original_language = l, popularity = Some p \<rparr>"

definition movie_A :: movie where "movie_A = mk_movie 1 ''Alien'' (Some ''en'') 90"
definition movie_B :: movie where "movie_B = mk_movie 2 ''Amelie'' (Some ''fr'') 60"
definition movie_C :: movie where "movie_C = mk_movie 3 ''Taxi'' (Some ''fr'') 20"
definition movie_D :: movie where "movie_D = mk_movie 4 ''Lost'' None 10"

definition pool4 :: EngineState where
  "pool4 = init_state [movie_A, movie_B, movie_C, movie_D]"

text \<open>The pool after "no" to the French-language question: \<open>movie_A\<close> leads \<open>movie_D\<close>.\<close>

definition after_no_fr :: EngineState where
  "after_no_fr = update_state_with_answer pool4 language_fr ''n'' 3"


text \<open>
  \<^verbatim>\<open>pred_popularity_ge\<close>: unknown when the popularity is missing. The static question
  \<^verbatim>\<open>popular\<close> uses it with the threshold 50; its key is in no hard-elimination class.
\<close>

definition pred_popularity_ge :: "rat \<Rightarrow> movie \<Rightarrow> bool option" where
  "pred_popularity_ge th m =
     (case popularity m of None \<Rightarrow> None | Some v \<Rightarrow> Some (v \<ge> th))"

definition popular :: Question where
  "popular = question ''popular'' (pred_popularity_ge 50)"

definition movie_E :: movie where
  "movie_E = \<lparr> movie_id = Some 5, title = Some ''Echo'', original_language = None, popularity = None \<rparr>"

definition pool5 :: EngineState where
  "pool5 = init_state [movie_A, movie_B, movie_C, movie_D, movie_E]"

text \<open>
  Two language questions, in the order of \<^verbatim>\<open>default_questions\<close>, and a session on a
  pool of four movies, two English and two French, two of them popular. \<open>state_after\<close>
  is the state the session is in after a list of events.
\<close>

definition language_en :: Question where
  "language_en = question ''language_en'' (pred_language ''en'')"

definition movie_F :: movie where "movie_F = mk_movie 6 ''Fargo'' (Some ''en'') 10"

definition session4 :: session where
  "session4 = start_session [movie_A, movie_B, movie_C, movie_F]"

definition questions3 :: "Question list" where
  "questions3 = [language_en, language_fr, popular]"

definition state_after :: "event list \<Rightarrow> EngineState" where
  "state_after es = (case run default_args session4 es of Inl e \<Rightarrow> fst session4 | Inr c \<Rightarrow> fst c)"

text \<open>The same session as objects.\<close>

definition session_obj4 :: session_obj where
  "session_obj4 = start_session_obj [movie_A, movie_B, movie_C, movie_F]"

section \<open>Basic facts about the loops\<close>

lemmas ex_defs = pool4_def init_state_def init_scores_def movie_A_def movie_B_def movie_C_def
  movie_D_def mk_movie_def language_fr_def question_def pred_language_def
  pool5_def movie_E_def popular_def pred_popularity_ge_def

lemmas upd_defs = update_state_with_answer_def apply_answer_def answer_y_def answer_n_def
  keep_only_def yes_step_def no_step_def py_step_def pn_step_def unknown_step_def
  remaining_ids_def bump_def score_get_def strike_get_def sort_candidates_def key_func_def
  is_hard_elimination_def hard_elimination_prefixes_def hard_elimination_keys_def startswith_def
  strike_elimination_def to_remove_def eliminate_movie_def

lemmas turn_defs = answer_turn_def note_question_def update_streak_def get_question_type_def
  startswith_any_def all_languages_def max_strikes_of_def default_args_def snapshot_state_def
  targeted_answer_turn_def reject_guess_def top_mid_def manual_eliminate_def


lemma snd_fold_yes_step:
  "snd (fold (yes_step q) xs acc) =
     snd acc @ filter (\<lambda>m. movie_id m \<noteq> None \<and> predicate q m \<noteq> Some False) xs"
  by (induction xs arbitrary: acc) (auto simp: yes_step_def split: option.splits bool.splits)

lemma snd_fold_no_step:
  "snd (fold (no_step q) xs acc) =
     snd acc @ filter (\<lambda>m. movie_id m \<noteq> None \<and> predicate q m \<noteq> Some True) xs"
  by (induction xs arbitrary: acc) (auto simp: no_step_def split: option.splits bool.splits)

lemma candidates_answer_y:
  "candidates (answer_y s q) =
     filter (\<lambda>m. movie_id m \<noteq> None \<and> predicate q m \<noteq> Some False) (candidates s)"
  by (simp add: answer_y_def keep_only_def snd_fold_yes_step)

lemma candidates_answer_n:
  "candidates (answer_n s q) =
     filter (\<lambda>m. movie_id m \<noteq> None \<and> predicate q m \<noteq> Some True) (candidates s)"
  by (simp add: answer_n_def keep_only_def snd_fold_no_step)

lemma mset_candidates_sort [simp]:
  "mset (candidates (sort_candidates s)) = mset (candidates s)"
  by (simp add: sort_candidates_def)

lemma set_candidates_sort [simp]:
  "set (candidates (sort_candidates s)) = set (candidates s)"
  by (simp add: sort_candidates_def)

lemma mset_candidates_strike_elimination:
  "mset (candidates (strike_elimination s k)) \<subseteq># mset (candidates s)"
  by (simp add: strike_elimination_def Let_def)

lemma mset_candidates_apply_answer:
  "mset (candidates (apply_answer s q a)) \<subseteq># mset (candidates s)"
  by (simp add: apply_answer_def candidates_answer_y candidates_answer_n)


section \<open>Hard elimination (C1)\<close>

lemma candidates_update_hard_y:
  "is_hard_elimination q \<Longrightarrow>
   set (candidates (update_state_with_answer s q ''y'' k)) =
     {m \<in> set (candidates s). movie_id m \<noteq> None \<and> predicate q m \<noteq> Some False}"
  by (auto simp: update_state_with_answer_def apply_answer_def candidates_answer_y)

lemma candidates_update_hard_n:
  "is_hard_elimination q \<Longrightarrow>
   set (candidates (update_state_with_answer s q ''n'' k)) =
     {m \<in> set (candidates s). movie_id m \<noteq> None \<and> predicate q m \<noteq> Some True}"
  by (auto simp: update_state_with_answer_def apply_answer_def candidates_answer_n)

text \<open>
  C1. For a question of a hard-elimination class, after the answer "yes" no item of the
  pool has the predicate false, and after "no" none has it true. Every item of the old
  pool that has an identifier and whose predicate is true or unknown (for "no": false or
  unknown) is still in the pool.
\<close>

theorem hard_elimination_survivors:
  assumes "is_hard_elimination q"
  shows "(\<forall>m \<in> set (candidates (update_state_with_answer s q ''y'' k)). predicate q m \<noteq> Some False)
       \<and> (\<forall>m \<in> set (candidates (update_state_with_answer s q ''n'' k)). predicate q m \<noteq> Some True)
       \<and> (\<forall>m \<in> set (candidates s). movie_id m \<noteq> None \<and> predicate q m \<noteq> Some False \<longrightarrow>
             m \<in> set (candidates (update_state_with_answer s q ''y'' k)))
       \<and> (\<forall>m \<in> set (candidates s). movie_id m \<noteq> None \<and> predicate q m \<noteq> Some True \<longrightarrow>
             m \<in> set (candidates (update_state_with_answer s q ''n'' k)))"
  using assms by (simp add: candidates_update_hard_y candidates_update_hard_n)


theorem hard_elimination_survivors_witness:
  "is_hard_elimination language_fr
   \<and> predicate language_fr movie_A = Some False
   \<and> movie_A \<notin> set (candidates (update_state_with_answer pool4 language_fr ''y'' 3))
   \<and> predicate language_fr movie_D = None
   \<and> movie_D \<in> set (candidates (update_state_with_answer pool4 language_fr ''y'' 3))
   \<and> predicate language_fr movie_B = Some True
   \<and> movie_B \<notin> set (candidates (update_state_with_answer pool4 language_fr ''n'' 3))
   \<and> movie_A \<in> set (candidates (update_state_with_answer pool4 language_fr ''n'' 3))"
proof -
  have h: "is_hard_elimination language_fr"
    by (simp add: language_fr_def question_def is_hard_elimination_def
        hard_elimination_prefixes_def startswith_def)
  have A: "predicate language_fr movie_A = Some False"
    and B: "predicate language_fr movie_B = Some True"
    and D: "predicate language_fr movie_D = None"
    by (simp_all add: ex_defs)
  have mem: "movie_A \<in> set (candidates pool4)" "movie_B \<in> set (candidates pool4)"
    "movie_D \<in> set (candidates pool4)"
    by (simp_all add: pool4_def init_state_def)
  note C = hard_elimination_survivors [OF h, of pool4 3]
  from C A have "movie_A \<notin> set (candidates (update_state_with_answer pool4 language_fr ''y'' 3))"
    by blast
  moreover from C B have "movie_B \<notin> set (candidates (update_state_with_answer pool4 language_fr ''n'' 3))"
    by blast
  moreover from C D mem have "movie_D \<in> set (candidates (update_state_with_answer pool4 language_fr ''y'' 3))"
    by (simp add: ex_defs)
  moreover from C A mem have "movie_A \<in> set (candidates (update_state_with_answer pool4 language_fr ''n'' 3))"
    by (simp add: ex_defs)
  ultimately show ?thesis using h A B D by simp
qed

section \<open>The pool never grows (C3)\<close>

lemma mset_candidates_update:
  "mset (candidates (update_state_with_answer s q a k)) \<subseteq># mset (candidates s)"
proof -
  have "mset (candidates (strike_elimination (apply_answer s q a) k)) \<subseteq># mset (candidates s)"
    using mset_candidates_strike_elimination mset_candidates_apply_answer
    by (rule subset_mset.order_trans)
  then show ?thesis
    by (simp add: update_state_with_answer_def Let_def mset_candidates_apply_answer)
qed

lemma mset_candidates_eliminate:
  "mset (candidates (eliminate_movie s mid)) \<subseteq># mset (candidates s)"
  by (simp add: eliminate_movie_def)

lemma candidates_note_question [simp]:
  "candidates (note_question s q a) = candidates s"
  by (simp add: note_question_def Let_def)

lemma mset_candidates_answer_turn:
  "answer_turn ar s q a = Inr s' \<Longrightarrow> mset (candidates s') \<subseteq># mset (candidates s)"
proof -
  assume "answer_turn ar s q a = Inr s'"
  then have "candidates s' =
      candidates (update_state_with_answer (note_question s q a) q a (max_strikes_of ar))"
    by (auto simp: answer_turn_def update_streak_def split: list.splits option.splits if_splits)
  then show ?thesis
    using mset_candidates_update [of "note_question s q a" q a "max_strikes_of ar"] by simp
qed

lemma mset_candidates_targeted:
  "mset (candidates (targeted_answer_turn ar s q a)) \<subseteq># mset (candidates s)"
proof -
  have "\<And>s2. mset (candidates (update_state_with_answer s2 q a (max_strikes_of ar)))
      \<subseteq># mset (candidates s2)"
    by (rule mset_candidates_update)
  then show ?thesis
    unfolding targeted_answer_turn_def Let_def
    by (smt (verit) EngineState.select_convs(1) EngineState.surjective EngineState.update_convs(2,5,6,9))
qed

lemma candidates_reject:
  "reject_guess ar s = Inr s' \<Longrightarrow>
   mset (candidates s') = mset (candidates s) \<or>
   (\<exists>mid. mset (candidates s') = mset (candidates (eliminate_movie s mid)))"
  by (auto simp: reject_guess_def Let_def split: list.splits option.splits)

lemma mset_candidates_reject:
  "reject_guess ar s = Inr s' \<Longrightarrow> mset (candidates s') \<subseteq># mset (candidates s)"
  using candidates_reject [of ar s s'] mset_candidates_eliminate [of s] by auto

lemma candidates_manual:
  "manual_eliminate s = Inr s' \<Longrightarrow>
   mset (candidates s') = mset (candidates s) \<or>
   (\<exists>mid. mset (candidates s') = mset (candidates (eliminate_movie s mid)))"
  by (auto simp: manual_eliminate_def split: list.splits option.splits)

lemma mset_candidates_manual:
  "manual_eliminate s = Inr s' \<Longrightarrow> mset (candidates s') \<subseteq># mset (candidates s)"
  using candidates_manual [of s s'] mset_candidates_eliminate [of s] by auto

text \<open>
  C3. The pool after an answer is a sub-multiset of the pool before it, so it is not
  longer; the same holds for \<^verbatim>\<open>eliminate_movie\<close>; and no event of a session other
  than undo puts an item into the pool.
\<close>

theorem pool_size_non_increasing:
  "mset (candidates (update_state_with_answer s q a k)) \<subseteq># mset (candidates s)
   \<and> length (candidates (update_state_with_answer s q a k)) \<le> length (candidates s)
   \<and> mset (candidates (eliminate_movie s mid)) \<subseteq># mset (candidates s)
   \<and> length (candidates (eliminate_movie s mid)) \<le> length (candidates s)
   \<and> (e \<noteq> Undo \<longrightarrow> step ar (s, h) e = Inr (s', h') \<longrightarrow>
        mset (candidates s') \<subseteq># mset (candidates s) \<and> length (candidates s') \<le> length (candidates s))"
proof -
  have len: "\<And>xs ys :: movie list. mset xs \<subseteq># mset ys \<Longrightarrow> length xs \<le> length ys"
    by (metis size_mset size_mset_mono)
  have st: "e \<noteq> Undo \<Longrightarrow> step ar (s, h) e = Inr (s', h') \<Longrightarrow>
      mset (candidates s') \<subseteq># mset (candidates s)"
    by (cases e)
       (auto split: sum.splits
          dest: mset_candidates_answer_turn mset_candidates_reject mset_candidates_manual
          simp: mset_candidates_targeted)
  show ?thesis
    using mset_candidates_update [of s q a k] mset_candidates_eliminate [of s mid] st len
    by blast
qed

theorem pool_size_non_increasing_witness:
  "\<exists>s' h'. step default_args (pool4, []) (Answer language_fr ''y'') = Inr (s', h')
     \<and> map movie_id (candidates s') = [Some 2, Some 3, Some 4]
     \<and> length (candidates pool4) = 4
     \<and> length (candidates s') \<le> length (candidates pool4)"
proof -
  have "\<exists>s' h'. step default_args (pool4, []) (Answer language_fr ''y'') = Inr (s', h')
     \<and> map movie_id (candidates s') = [Some 2, Some 3, Some 4]"
    by (simp add: ex_defs upd_defs turn_defs)
  then obtain s' h' where
    st: "step default_args (pool4, []) (Answer language_fr ''y'') = Inr (s', h')" and
    ids: "map movie_id (candidates s') = [Some 2, Some 3, Some 4]"
    by (elim exE conjE)
  have "length (candidates s') \<le> length (candidates pool4)"
    using pool_size_non_increasing [of pool4 language_fr "''y''" 3 1 "Answer language_fr ''y''"
        default_args "[]" s' h'] st
    by simp
  moreover have "length (candidates pool4) = 4"
    by (simp add: pool4_def init_state_def)
  ultimately show ?thesis using st ids by (intro exI conjI)
qed

section \<open>When a guess is due (C5)\<close>

lemma candidates_after_no_fr: "candidates after_no_fr = [movie_A, movie_D]"
  by (simp add: after_no_fr_def ex_defs upd_defs)

lemma score_of_after_no_fr:
  "score_of after_no_fr movie_A = 3" "score_of after_no_fr movie_D = 1 / 2"
  by (simp_all add: score_of_def after_no_fr_def ex_defs upd_defs)

lemma guess_cooldown_after_no_fr: "guess_cooldown after_no_fr = 0"
  by (simp add: after_no_fr_def ex_defs upd_defs Let_def)

text \<open>
  C5. \<^verbatim>\<open>should_enter_guess_mode\<close> answers yes exactly when one candidate remains, or there
  are at least two and either the second score is positive and the first is at least
  twice the second, or the second score is at most 0 and the first is at least 10 (the
  absolute floor), or the same item has led for at least 10 questions (the streak length
  written in the function).
\<close>

theorem should_enter_guess_mode_iff:
  "should_enter_guess_mode s \<longleftrightarrow>
     (length (candidates s) = 1
      \<or> (length (candidates s) \<ge> 2 \<and>
          ((0 < score_of s (candidates s ! 1) \<and>
            2 * score_of s (candidates s ! 1) \<le> score_of s (candidates s ! 0))
           \<or> (score_of s (candidates s ! 1) \<le> 0 \<and> 10 \<le> score_of s (candidates s ! 0))))
      \<or> 10 \<le> top_streak_len s)"
  by (auto simp: should_enter_guess_mode_def Let_def pos_le_divide_eq mult.commute)

theorem should_enter_guess_mode_iff_witness:
  "should_enter_guess_mode after_no_fr \<and> \<not> should_enter_guess_mode pool4
   \<and> should_enter_guess_mode (pool4\<lparr>top_streak_len := 10\<rparr>)"
proof -
  have "should_enter_guess_mode after_no_fr"
    using should_enter_guess_mode_iff [of after_no_fr]
    by (simp add: candidates_after_no_fr score_of_after_no_fr)
  moreover have "\<not> should_enter_guess_mode pool4"
    using should_enter_guess_mode_iff [of pool4]
    by (simp add: ex_defs score_of_def score_get_def)
  moreover have "should_enter_guess_mode (pool4\<lparr>top_streak_len := 10\<rparr>)"
    using should_enter_guess_mode_iff [of "pool4\<lparr>top_streak_len := 10\<rparr>"] by simp
  ultimately show ?thesis by simp
qed

section \<open>A rejected guess (C9)\<close>

lemma guess_cooldown_sort [simp]: "guess_cooldown (sort_candidates s) = guess_cooldown s"
  by (simp add: sort_candidates_def)

lemma guess_cooldown_apply [simp]: "guess_cooldown (apply_answer s q a) = guess_cooldown s"
  by (simp add: apply_answer_def answer_y_def answer_n_def keep_only_def)

lemma guess_cooldown_strike [simp]: "guess_cooldown (strike_elimination s k) = guess_cooldown s"
  by (simp add: strike_elimination_def Let_def)

lemma guess_cooldown_update [simp]:
  "guess_cooldown (update_state_with_answer s q a k) = guess_cooldown s"
  by (simp add: update_state_with_answer_def Let_def)

lemma guess_cooldown_note:
  "guess_cooldown (note_question s q a) =
     (if guess_cooldown s > 0 then guess_cooldown s - 1 else guess_cooldown s)"
  by (simp add: note_question_def Let_def)

lemma guess_cooldown_answer_turn:
  "answer_turn ar s q a = Inr s' \<Longrightarrow>
   guess_cooldown s' = (if guess_cooldown s > 0 then guess_cooldown s - 1 else guess_cooldown s)"
  by (auto simp: answer_turn_def update_streak_def guess_cooldown_note
      split: list.splits option.splits if_splits)

text \<open>
  C9. Take a state in which a guess is offered (at the top of the loop or after an
  answer), whose top item has an identifier that no other item of the pool shares. Under
  the default configuration the rejection returns a state whose pool is the old pool
  without the guessed item, whose cooldown is 2, and in which no guess is offered; and
  after the next answered question the cooldown is 1, so that turn offers no guess
  either.
\<close>

theorem rejected_guess:
  assumes off: "guess_offered s \<or> streak_guess_offered s"
    and pool: "candidates s = g # rest"
    and gid: "movie_id g = Some mid"
    and uniq: "\<forall>m \<in> set rest. movie_id m \<noteq> Some mid"
  shows "\<exists>s'. reject_guess default_args s = Inr s'
           \<and> mset (candidates s') = mset rest
           \<and> guess_cooldown s' = 2
           \<and> \<not> guess_offered s' \<and> \<not> streak_guess_offered s'
           \<and> (\<forall>q a s''. answer_turn default_args s' q a = Inr s'' \<longrightarrow>
                  guess_cooldown s'' = 1 \<and> \<not> guess_offered s'' \<and> \<not> streak_guess_offered s'')"
proof -
  define s2 where "s2 = sort_candidates (eliminate_movie s mid)"
  define s' where "s' = s2\<lparr> guess_cooldown := 2, top_streak_mid := top_mid s2,
      top_streak_len := 0, consecutive_guesses := consecutive_guesses s2 + 1 \<rparr>"
  have r: "reject_guess default_args s = Inr s'"
    by (simp add: reject_guess_def pool gid s'_def s2_def default_args_def Let_def)
  have "filter (\<lambda>m. movie_id m \<noteq> Some mid) rest = rest"
    using uniq by (simp add: filter_id_conv)
  then have c: "mset (candidates s') = mset rest"
    by (simp add: s'_def s2_def eliminate_movie_def pool gid)
  have cd: "guess_cooldown s' = 2" by (simp add: s'_def)
  have no: "\<not> guess_offered s'" "\<not> streak_guess_offered s'"
    using cd by (auto simp: guess_offered_def streak_guess_offered_def split: list.splits)
  have nxt: "guess_cooldown s'' = 1 \<and> \<not> guess_offered s'' \<and> \<not> streak_guess_offered s''"
    if "answer_turn default_args s' q a = Inr s''" for q a s''
  proof -
    have "guess_cooldown s'' = 1"
      using guess_cooldown_answer_turn [OF that] cd by simp
    then show ?thesis
      by (auto simp: guess_offered_def streak_guess_offered_def split: list.splits)
  qed
  show ?thesis using r c cd no nxt by blast
qed

theorem rejected_guess_witness:
  "guess_offered after_no_fr \<and> candidates after_no_fr = [movie_A, movie_D]
   \<and> (\<exists>s'. reject_guess default_args after_no_fr = Inr s'
          \<and> mset (candidates s') = {#movie_D#}
          \<and> guess_cooldown s' = 2 \<and> \<not> guess_offered s')"
proof -
  have g: "guess_offered after_no_fr"
    by (simp add: guess_offered_def should_enter_guess_mode_def candidates_after_no_fr
        score_of_after_no_fr guess_cooldown_after_no_fr)
  have u: "\<forall>m \<in> set [movie_D]. movie_id m \<noteq> Some 1"
    by (simp add: movie_D_def mk_movie_def)
  have i: "movie_id movie_A = Some 1"
    by (simp add: movie_A_def mk_movie_def)
  from rejected_guess [OF disjI1 [OF g] candidates_after_no_fr i u]
  obtain s' where "reject_guess default_args after_no_fr = Inr s'"
    "mset (candidates s') = mset [movie_D]" "guess_cooldown s' = 2" "\<not> guess_offered s'"
    by blast
  then show ?thesis using g candidates_after_no_fr by auto
qed


section \<open>Strikes are never added (C10)\<close>

lemma strikes_sort [simp]: "strikes (sort_candidates s) = strikes s"
  by (simp add: sort_candidates_def)

lemma strikes_apply_answer_empty:
  "strikes s = Map.empty \<Longrightarrow> strikes (apply_answer s q a) = Map.empty"
  by (simp add: apply_answer_def answer_y_def answer_n_def keep_only_def)

lemma fold_pop_empty: "fold (\<lambda>mid st. st(mid := None)) tr Map.empty = (Map.empty :: int \<rightharpoonup> int)"
  by (induction tr) simp_all

lemma strikes_strike_elimination_empty:
  "strikes s = Map.empty \<Longrightarrow> strikes (strike_elimination s k) = Map.empty"
  by (simp add: strike_elimination_def Let_def fold_pop_empty)

lemma strikes_update_empty:
  "strikes s = Map.empty \<Longrightarrow> strikes (update_state_with_answer s q a k) = Map.empty"
  by (simp add: update_state_with_answer_def Let_def strikes_apply_answer_empty
      strikes_strike_elimination_empty)

lemma strikes_note_question [simp]: "strikes (note_question s q a) = strikes s"
  by (simp add: note_question_def Let_def)

lemma strikes_answer_turn_empty:
  "strikes s = Map.empty \<Longrightarrow> answer_turn ar s q a = Inr s' \<Longrightarrow> strikes s' = Map.empty"
  by (auto simp: answer_turn_def update_streak_def strikes_update_empty
      split: list.splits option.splits if_splits)

lemma strikes_targeted_empty:
  "strikes s = Map.empty \<Longrightarrow> strikes (targeted_answer_turn ar s q a) = Map.empty"
  by (simp add: targeted_answer_turn_def Let_def strikes_update_empty)

lemma strikes_eliminate_empty:
  "strikes s = Map.empty \<Longrightarrow> strikes (eliminate_movie s mid) = Map.empty"
  by (simp add: eliminate_movie_def)

lemma strikes_reject_empty:
  "strikes s = Map.empty \<Longrightarrow> reject_guess ar s = Inr s' \<Longrightarrow> strikes s' = Map.empty"
  by (auto simp: reject_guess_def Let_def strikes_eliminate_empty split: list.splits option.splits)

lemma strikes_manual_empty:
  "strikes s = Map.empty \<Longrightarrow> manual_eliminate s = Inr s' \<Longrightarrow> strikes s' = Map.empty"
  by (auto simp: manual_eliminate_def strikes_eliminate_empty split: list.splits option.splits)

lemma strikes_snapshot [simp]: "strikes (snapshot_state s) = strikes s"
  by (simp add: snapshot_state_def)

lemma no_strikes_step:
  assumes "no_strikes c" "step ar c e = Inr c'"
  shows "no_strikes c'"
proof (cases c)
  case (Pair s h)
  with assms show ?thesis
    by (cases e)
       (auto simp: no_strikes_def strikes_targeted_empty split: sum.splits list.splits
          dest: strikes_answer_turn_empty strikes_reject_empty strikes_manual_empty)
qed

lemma no_strikes_run:
  "no_strikes c \<Longrightarrow> run ar c es = Inr c' \<Longrightarrow> no_strikes c'"
proof (induction es arbitrary: c)
  case Nil
  then show ?case by simp
next
  case (Cons e es)
  then show ?case
    by (auto split: sum.splits dest: no_strikes_step)
qed

lemma no_strikes_start: "no_strikes (start_session movies)"
  by (simp add: no_strikes_def start_session_def Let_def init_state_def)

lemma to_remove_no_strikes:
  "strikes s = Map.empty \<Longrightarrow> 1 \<le> k \<Longrightarrow> to_remove s k = []"
  by (auto simp: to_remove_def strike_get_def List.map_filter_def filter_empty_conv split: option.splits)

lemma strike_elimination_no_strikes:
  "strikes s = Map.empty \<Longrightarrow> 1 \<le> k \<Longrightarrow> strike_elimination s k = s"
  by (simp add: strike_elimination_def to_remove_no_strikes)

text \<open>
  C10. In every session reached from the start by answers (chosen or targeted), rejected
  guesses, manual eliminations and undos, the strike table of the current state and of
  every snapshot is empty, so every strike count reads 0; and with the strike limit of
  \<^verbatim>\<open>main\<close> (at least 1) the strike pass of the next update finds nothing to remove
  and leaves the state as it is.
\<close>

theorem strikes_stay_zero:
  assumes "run ar (start_session movies) es = Inr (s, h)"
  shows "strikes s = Map.empty
       \<and> strike_get (strikes s) mid = 0
       \<and> list_all (\<lambda>x. strikes x = Map.empty) h
       \<and> to_remove (apply_answer s q a) (max_strikes_of ar) = []
       \<and> strike_elimination (apply_answer s q a) (max_strikes_of ar) = apply_answer s q a"
proof -
  have inv: "no_strikes (s, h)"
    using no_strikes_run [OF no_strikes_start assms] .
  then have e: "strikes s = Map.empty" and hs: "list_all (\<lambda>x. strikes x = Map.empty) h"
    by (simp_all add: no_strikes_def)
  have k: "1 \<le> max_strikes_of ar" by (simp add: max_strikes_of_def)
  have e': "strikes (apply_answer s q a) = Map.empty"
    using e by (rule strikes_apply_answer_empty)
  show ?thesis
    using e hs to_remove_no_strikes [OF e' k] strike_elimination_no_strikes [OF e' k]
    by (simp add: strike_get_def)
qed


theorem strikes_stay_zero_witness:
  "\<exists>s h. run default_args (start_session [movie_A, movie_B, movie_C, movie_D])
            [Answer language_fr ''n'', RejectGuess] = Inr (s, h)
     \<and> map movie_id (candidates s) = [Some 4]
     \<and> strikes s = Map.empty
     \<and> strike_get (strikes s) 4 = 0
     \<and> strike_elimination (apply_answer s language_fr ''y'') (max_strikes_of default_args)
         = apply_answer s language_fr ''y''"
proof -
  have "\<exists>s h. run default_args (start_session [movie_A, movie_B, movie_C, movie_D])
            [Answer language_fr ''n'', RejectGuess] = Inr (s, h)
     \<and> map movie_id (candidates s) = [Some 4]"
    by (simp add: start_session_def Let_def ex_defs upd_defs turn_defs)
  then obtain s h where
    r: "run default_args (start_session [movie_A, movie_B, movie_C, movie_D])
            [Answer language_fr ''n'', RejectGuess] = Inr (s, h)" and
    c: "map movie_id (candidates s) = [Some 4]"
    by (elim exE conjE)
  note z = strikes_stay_zero [OF r, of 4 language_fr "''y''"]
  show ?thesis
    by (intro exI [of _ s] exI [of _ h] conjI) (use z r c in blast)+
qed

section \<open>Questions outside the hard classes (C2)\<close>

lemma set_map_filter_iff:
  "set (List.map_filter f xs) = {y. \<exists>x \<in> set xs. f x = Some y}"
  by (induction xs) (auto split: option.splits)

lemma set_to_remove:
  "set (to_remove s k) =
     {mid. \<exists>m \<in> set (candidates s). movie_id m = Some mid \<and> k \<le> strike_get (strikes s) mid}"
  by (auto simp: to_remove_def set_map_filter_iff split: option.splits if_splits)

lemma set_candidates_strike_elimination:
  "set (candidates (strike_elimination s k)) =
     {m \<in> set (candidates s). \<forall>mid. movie_id m = Some mid \<longrightarrow> strike_get (strikes s) mid < k}"
proof (cases "to_remove s k = []")
  case True
  then have "set (to_remove s k) = {}" by simp
  then have "\<forall>m \<in> set (candidates s). \<forall>mid. movie_id m = Some mid \<longrightarrow> strike_get (strikes s) mid < k"
    unfolding set_to_remove by force
  with True show ?thesis by (auto simp: strike_elimination_def)
next
  case False
  then show ?thesis
    by (auto simp: strike_elimination_def Let_def set_to_remove image_iff not_le)
qed

lemma remaining_ids_iff: "mid \<in> remaining_ids ms \<longleftrightarrow> (\<exists>m \<in> set ms. movie_id m = Some mid)"
  by (auto simp: remaining_ids_def set_map_filter_iff)

lemma strikes_answer_y:
  "strikes (answer_y s q) = strikes s |` remaining_ids (candidates (answer_y s q))"
  by (simp add: answer_y_def keep_only_def)

lemma strikes_answer_n:
  "strikes (answer_n s q) = strikes s |` remaining_ids (candidates (answer_n s q))"
  by (simp add: answer_n_def keep_only_def)

lemma soft_pool_y:
  assumes "\<not> is_hard_elimination q"
  shows "set (candidates (update_state_with_answer s q ''y'' k)) =
     {m \<in> set (candidates s). \<exists>mid. movie_id m = Some mid \<and> predicate q m \<noteq> Some False
        \<and> strike_get (strikes s) mid < k}"
proof -
  have "strike_get (strikes (answer_y s q)) mid = strike_get (strikes s) mid"
    if "m \<in> set (candidates (answer_y s q))" "movie_id m = Some mid" for m mid
    using that by (auto simp: strikes_answer_y strike_get_def remaining_ids_iff restrict_map_def)
  then show ?thesis
    using assms
    by (auto simp: update_state_with_answer_def apply_answer_def set_candidates_strike_elimination)
       (auto simp: candidates_answer_y)
qed

lemma soft_pool_n:
  assumes "\<not> is_hard_elimination q"
  shows "set (candidates (update_state_with_answer s q ''n'' k)) =
     {m \<in> set (candidates s). \<exists>mid. movie_id m = Some mid \<and> predicate q m \<noteq> Some True
        \<and> strike_get (strikes s) mid < k}"
proof -
  have "strike_get (strikes (answer_n s q)) mid = strike_get (strikes s) mid"
    if "m \<in> set (candidates (answer_n s q))" "movie_id m = Some mid" for m mid
    using that by (auto simp: strikes_answer_n strike_get_def remaining_ids_iff restrict_map_def)
  then show ?thesis
    using assms
    by (auto simp: update_state_with_answer_def apply_answer_def set_candidates_strike_elimination)
       (auto simp: candidates_answer_n)
qed


lemma fold_pop_apply:
  "fold (\<lambda>mid st. st(mid := None)) tr st x = (if x \<in> set tr then None else st x)"
  by (induction tr arbitrary: st) auto

lemma strikes_apply_answer_le: "strikes (apply_answer s q a) \<subseteq>\<^sub>m strikes s"
  by (auto simp: apply_answer_def answer_y_def answer_n_def keep_only_def map_le_def restrict_map_def)

lemma strikes_strike_elimination_le: "strikes (strike_elimination s k) \<subseteq>\<^sub>m strikes s"
  by (auto simp: strike_elimination_def Let_def map_le_def fold_pop_apply split: if_splits)

lemma strikes_sort_eq: "strikes (sort_candidates s) = strikes s"
  by (simp add: sort_candidates_def)

lemma strikes_update_le: "strikes (update_state_with_answer s q a k) \<subseteq>\<^sub>m strikes s"
proof -
  have "strikes (strike_elimination (apply_answer s q a) k) \<subseteq>\<^sub>m strikes s"
    using strikes_strike_elimination_le strikes_apply_answer_le by (rule map_le_trans)
  then show ?thesis
    by (simp add: update_state_with_answer_def Let_def strikes_sort_eq strikes_apply_answer_le)
qed

lemma fst_fold_yes_untouched:
  "\<forall>m \<in> set xs. movie_id m \<noteq> Some mid \<Longrightarrow> fst (fold (yes_step q) xs acc) mid = fst acc mid"
  by (induction xs arbitrary: acc)
     (auto simp: yes_step_def bump_def split: option.splits bool.splits)

lemma fst_fold_no_untouched:
  "\<forall>m \<in> set xs. movie_id m \<noteq> Some mid \<Longrightarrow> fst (fold (no_step q) xs acc) mid = fst acc mid"
  by (induction xs arbitrary: acc)
     (auto simp: no_step_def bump_def split: option.splits bool.splits)

lemma fst_fold_yes_hit:
  "distinct (List.map_filter movie_id xs) \<Longrightarrow> m \<in> set xs \<Longrightarrow> movie_id m = Some mid \<Longrightarrow>
   predicate q m \<noteq> Some False \<Longrightarrow>
   fst (fold (yes_step q) xs acc) mid
     = Some (score_get (fst acc) mid + (if predicate q m = Some True then 5 else - 1))"
proof (induction xs arbitrary: acc)
  case Nil
  then show ?case by simp
next
  case (Cons x xs)
  show ?case
  proof (cases "movie_id x = Some mid")
    case True
    with Cons.prems(1) have later: "\<forall>m' \<in> set xs. movie_id m' \<noteq> Some mid"
      by (auto simp: set_map_filter_iff)
    with Cons.prems(2,3) have "m = x" by auto
    with True Cons.prems(4) have
      "fst (yes_step q x acc) mid
         = Some (score_get (fst acc) mid + (if predicate q m = Some True then 5 else - 1))"
      by (auto simp: yes_step_def bump_def split: option.splits bool.splits)
    then show ?thesis using fst_fold_yes_untouched [OF later] by simp
  next
    case False
    with Cons.prems(2,3) have mem: "m \<in> set xs" by auto
    from Cons.prems(1) have d: "distinct (List.map_filter movie_id xs)"
      by (auto split: option.splits)
    from False have same: "fst (yes_step q x acc) mid = fst acc mid"
      by (auto simp: yes_step_def bump_def split: option.splits bool.splits)
    then have "score_get (fst (yes_step q x acc)) mid = score_get (fst acc) mid"
      by (simp add: score_get_def)
    with Cons.IH [OF d mem Cons.prems(3,4), of "yes_step q x acc"] show ?thesis by simp
  qed
qed

lemma fst_fold_no_hit:
  "distinct (List.map_filter movie_id xs) \<Longrightarrow> m \<in> set xs \<Longrightarrow> movie_id m = Some mid \<Longrightarrow>
   predicate q m \<noteq> Some True \<Longrightarrow>
   fst (fold (no_step q) xs acc) mid
     = Some (score_get (fst acc) mid + (if predicate q m = Some False then 3 else 1 / 2))"
proof (induction xs arbitrary: acc)
  case Nil
  then show ?case by simp
next
  case (Cons x xs)
  show ?case
  proof (cases "movie_id x = Some mid")
    case True
    with Cons.prems(1) have later: "\<forall>m' \<in> set xs. movie_id m' \<noteq> Some mid"
      by (auto simp: set_map_filter_iff)
    with Cons.prems(2,3) have "m = x" by auto
    with True Cons.prems(4) have
      "fst (no_step q x acc) mid
         = Some (score_get (fst acc) mid + (if predicate q m = Some False then 3 else 1 / 2))"
      by (auto simp: no_step_def bump_def split: option.splits bool.splits)
    then show ?thesis using fst_fold_no_untouched [OF later] by simp
  next
    case False
    with Cons.prems(2,3) have mem: "m \<in> set xs" by auto
    from Cons.prems(1) have d: "distinct (List.map_filter movie_id xs)"
      by (auto split: option.splits)
    from False have same: "fst (no_step q x acc) mid = fst acc mid"
      by (auto simp: no_step_def bump_def split: option.splits bool.splits)
    then have "score_get (fst (no_step q x acc)) mid = score_get (fst acc) mid"
      by (simp add: score_get_def)
    with Cons.IH [OF d mem Cons.prems(3,4), of "no_step q x acc"] show ?thesis by simp
  qed
qed

lemma scores_strike_elimination_survivor:
  assumes "m \<in> set (candidates (strike_elimination s k))" "movie_id m = Some mid"
  shows "scores (strike_elimination s k) mid = scores s mid"
proof -
  from assms have lt: "strike_get (strikes s) mid < k"
    by (simp add: set_candidates_strike_elimination)
  then have "mid \<notin> set (to_remove s k)"
    by (auto simp: set_to_remove)
  then show ?thesis
    by (simp add: strike_elimination_def Let_def fold_pop_apply)
qed

lemma scores_sort_eq: "scores (sort_candidates s) = scores s"
  by (simp add: sort_candidates_def)

lemma scores_answer_y_survivor:
  assumes "distinct (List.map_filter movie_id (candidates s))"
    and "m \<in> set (candidates (answer_y s q))" "movie_id m = Some mid"
  shows "scores (answer_y s q) mid
     = Some (score_get (scores s) mid + (if predicate q m = Some True then 5 else - 1))"
proof -
  from assms(2) have mem: "m \<in> set (candidates s)" and p: "predicate q m \<noteq> Some False"
    by (simp_all add: candidates_answer_y)
  from assms(2,3) have "mid \<in> remaining_ids (candidates (answer_y s q))"
    by (auto simp: remaining_ids_iff)
  then have "scores (answer_y s q) mid = fst (fold (yes_step q) (candidates s) (scores s, [])) mid"
    by (simp add: answer_y_def keep_only_def)
  with fst_fold_yes_hit [OF assms(1) mem assms(3) p, of "(scores s, [])"] show ?thesis by simp
qed

lemma scores_answer_n_survivor:
  assumes "distinct (List.map_filter movie_id (candidates s))"
    and "m \<in> set (candidates (answer_n s q))" "movie_id m = Some mid"
  shows "scores (answer_n s q) mid
     = Some (score_get (scores s) mid + (if predicate q m = Some False then 3 else 1 / 2))"
proof -
  from assms(2) have mem: "m \<in> set (candidates s)" and p: "predicate q m \<noteq> Some True"
    by (simp_all add: candidates_answer_n)
  from assms(2,3) have "mid \<in> remaining_ids (candidates (answer_n s q))"
    by (auto simp: remaining_ids_iff)
  then have "scores (answer_n s q) mid = fst (fold (no_step q) (candidates s) (scores s, [])) mid"
    by (simp add: answer_n_def keep_only_def)
  with fst_fold_no_hit [OF assms(1) mem assms(3) p, of "(scores s, [])"] show ?thesis by simp
qed

lemma soft_scores_y:
  assumes "\<not> is_hard_elimination q" "distinct (List.map_filter movie_id (candidates s))"
    and "m \<in> set (candidates (update_state_with_answer s q ''y'' k))" "movie_id m = Some mid"
  shows "scores (update_state_with_answer s q ''y'' k) mid
     = Some (score_get (scores s) mid + (if predicate q m = Some True then 5 else - 1))"
proof -
  from assms(1,3) have a: "m \<in> set (candidates (strike_elimination (answer_y s q) k))"
    by (simp add: update_state_with_answer_def apply_answer_def)
  then have b: "m \<in> set (candidates (answer_y s q))"
    by (simp add: set_candidates_strike_elimination)
  have "scores (update_state_with_answer s q ''y'' k) mid
      = scores (strike_elimination (answer_y s q) k) mid"
    using assms(1) by (simp add: update_state_with_answer_def apply_answer_def scores_sort_eq)
  also have "\<dots> = scores (answer_y s q) mid"
    using a assms(4) by (rule scores_strike_elimination_survivor)
  finally show ?thesis
    using scores_answer_y_survivor [OF assms(2) b assms(4)] by simp
qed

lemma soft_scores_n:
  assumes "\<not> is_hard_elimination q" "distinct (List.map_filter movie_id (candidates s))"
    and "m \<in> set (candidates (update_state_with_answer s q ''n'' k))" "movie_id m = Some mid"
  shows "scores (update_state_with_answer s q ''n'' k) mid
     = Some (score_get (scores s) mid + (if predicate q m = Some False then 3 else 1 / 2))"
proof -
  from assms(1,3) have a: "m \<in> set (candidates (strike_elimination (answer_n s q) k))"
    by (simp add: update_state_with_answer_def apply_answer_def)
  then have b: "m \<in> set (candidates (answer_n s q))"
    by (simp add: set_candidates_strike_elimination)
  have "scores (update_state_with_answer s q ''n'' k) mid
      = scores (strike_elimination (answer_n s q) k) mid"
    using assms(1) by (simp add: update_state_with_answer_def apply_answer_def scores_sort_eq)
  also have "\<dots> = scores (answer_n s q) mid"
    using a assms(4) by (rule scores_strike_elimination_survivor)
  finally show ?thesis
    using scores_answer_n_survivor [OF assms(2) b assms(4)] by simp
qed

text \<open>
  C2, as the code has it. For a question outside the hard-elimination classes and a pool
  whose identifiers are distinct, "yes" and "no" remove at once, as for the hard classes:
  after "yes" the pool holds exactly the items with an identifier whose predicate is not
  false and whose strike count was below the limit, an item whose predicate is true has
  gained 5.0 and one whose predicate is unknown has lost 1.0; after "no" it holds those
  whose predicate is not true, with +3.0 for false and +0.5 for unknown. No strike is
  added: the strike table after the update is part of the table before it.
\<close>

theorem soft_answer_eliminates:
  assumes soft: "\<not> is_hard_elimination q"
    and ids: "distinct (List.map_filter movie_id (candidates s))"
  shows "set (candidates (update_state_with_answer s q ''y'' k)) =
           {m \<in> set (candidates s). \<exists>mid. movie_id m = Some mid \<and> predicate q m \<noteq> Some False
              \<and> strike_get (strikes s) mid < k}
       \<and> set (candidates (update_state_with_answer s q ''n'' k)) =
           {m \<in> set (candidates s). \<exists>mid. movie_id m = Some mid \<and> predicate q m \<noteq> Some True
              \<and> strike_get (strikes s) mid < k}
       \<and> (\<forall>m \<in> set (candidates (update_state_with_answer s q ''y'' k)). \<forall>mid.
             movie_id m = Some mid \<longrightarrow>
             scores (update_state_with_answer s q ''y'' k) mid
               = Some (score_get (scores s) mid + (if predicate q m = Some True then 5 else - 1)))
       \<and> (\<forall>m \<in> set (candidates (update_state_with_answer s q ''n'' k)). \<forall>mid.
             movie_id m = Some mid \<longrightarrow>
             scores (update_state_with_answer s q ''n'' k) mid
               = Some (score_get (scores s) mid + (if predicate q m = Some False then 3 else 1 / 2)))
       \<and> strikes (update_state_with_answer s q ''y'' k) \<subseteq>\<^sub>m strikes s
       \<and> strikes (update_state_with_answer s q ''n'' k) \<subseteq>\<^sub>m strikes s"
  using soft_pool_y [OF soft] soft_pool_n [OF soft] soft_scores_y [OF soft ids]
    soft_scores_n [OF soft ids] strikes_update_le
  by blast

theorem soft_answer_eliminates_witness:
  "\<not> is_hard_elimination popular
   \<and> distinct (List.map_filter movie_id (candidates pool5))
   \<and> set (candidates (update_state_with_answer pool5 popular ''y'' 3)) = {movie_A, movie_B, movie_E}
   \<and> scores (update_state_with_answer pool5 popular ''y'' 3) 1 = Some 5
   \<and> scores (update_state_with_answer pool5 popular ''n'' 3) 3 = Some 3
   \<and> strikes (update_state_with_answer pool5 popular ''y'' 3) \<subseteq>\<^sub>m strikes pool5"
proof -
  have soft: "\<not> is_hard_elimination popular"
    by (simp add: popular_def question_def is_hard_elimination_def hard_elimination_keys_def
        hard_elimination_prefixes_def startswith_def)
  have ids: "distinct (List.map_filter movie_id (candidates pool5))"
    by (simp add: ex_defs)
  note T = soft_answer_eliminates [OF soft ids, of 3]
  have A: "movie_A \<in> set (candidates (update_state_with_answer pool5 popular ''y'' 3))"
    and C: "movie_C \<in> set (candidates (update_state_with_answer pool5 popular ''n'' 3))"
    by (simp_all add: ex_defs upd_defs)
  have iA: "movie_id movie_A = Some 1" "predicate popular movie_A = Some True"
    and iC: "movie_id movie_C = Some 3" "predicate popular movie_C = Some False"
    by (simp_all add: ex_defs)
  have s0: "score_get (scores pool5) 1 = 0" "score_get (scores pool5) 3 = 0"
    by (simp_all add: ex_defs score_get_def)
  from T have Ty: "\<forall>m \<in> set (candidates (update_state_with_answer pool5 popular ''y'' 3)). \<forall>mid.
             movie_id m = Some mid \<longrightarrow>
             scores (update_state_with_answer pool5 popular ''y'' 3) mid
               = Some (score_get (scores pool5) mid + (if predicate popular m = Some True then 5 else - 1))"
    by (elim conjE)
  from T have Tn: "\<forall>m \<in> set (candidates (update_state_with_answer pool5 popular ''n'' 3)). \<forall>mid.
             movie_id m = Some mid \<longrightarrow>
             scores (update_state_with_answer pool5 popular ''n'' 3) mid
               = Some (score_get (scores pool5) mid + (if predicate popular m = Some False then 3 else 1 / 2))"
    by (elim conjE)
  from T have Ts: "strikes (update_state_with_answer pool5 popular ''y'' 3) \<subseteq>\<^sub>m strikes pool5"
    by (elim conjE)
  from Ty [rule_format, OF A iA(1)] have y: "scores (update_state_with_answer pool5 popular ''y'' 3) 1 = Some 5"
    by (simp add: iA s0)
  from Tn [rule_format, OF C iC(1)] have n: "scores (update_state_with_answer pool5 popular ''n'' 3) 3 = Some 3"
    by (simp add: iC s0)
  have p: "set (candidates (update_state_with_answer pool5 popular ''y'' 3)) = {movie_A, movie_B, movie_E}"
    by (simp add: ex_defs upd_defs)
  show ?thesis using soft ids p y n Ts by (intro conjI)
qed

text \<open>
  C2 as the specification words it fails on "yes": in \<open>pool5\<close> the question \<^verbatim>\<open>popular\<close> is
  soft, \<open>movie_C\<close> has the predicate false and no strike, and it leaves the pool at once
  with the limit 3; \<open>movie_A\<close> (true) gains 5.0 and \<open>movie_E\<close> (unknown) loses 1.0; the
  strike table stays empty.
\<close>

theorem soft_yes_counterexample:
  "\<not> is_hard_elimination popular
   \<and> movie_C \<in> set (candidates pool5) \<and> predicate popular movie_C = Some False
   \<and> strike_get (strikes pool5) 3 = 0
   \<and> movie_C \<notin> set (candidates (update_state_with_answer pool5 popular ''y'' 3))
   \<and> predicate popular movie_A = Some True
   \<and> score_get (scores pool5) 1 = 0
   \<and> score_get (scores (update_state_with_answer pool5 popular ''y'' 3)) 1 = 5
   \<and> predicate popular movie_E = None
   \<and> score_get (scores (update_state_with_answer pool5 popular ''y'' 3)) 5 = - 1
   \<and> strikes (update_state_with_answer pool5 popular ''y'' 3) = Map.empty"
  by (simp add: ex_defs upd_defs)


section \<open>Asked keys and the selector (C7, C8)\<close>

lemma set_scored_questions:
  "x \<in> set (scored_questions st cs qs) \<Longrightarrow> fst x \<in> set qs"
  by (auto simp: scored_questions_def set_map_filter_iff Let_def split: if_splits)

lemma choose_best_question_valid:
  assumes "choose_best_question pick cs qs asked_keys first st = Some q"
  shows "q \<in> set qs \<and> valid_question asked_keys q"
proof -
  define valid where "valid = filter (valid_question asked_keys) qs"
  define v150 where "v150 = (if length valid > 150 then take 150 valid else valid)"
  define scored where "scored = sort_key (\<lambda>x. - snd x) (scored_questions st cs v150)"
  have sub: "set v150 \<subseteq> set valid"
    by (auto simp: v150_def dest: in_set_takeD)
  have mem: "fst x \<in> set valid" if "x \<in> set scored" for x
    using that sub set_scored_questions [of x st cs v150] by (auto simp: scored_def)
  from assms have ne: "scored \<noteq> []"
    and q: "q = (if first \<and> length scored \<ge> 5 then fst (take 5 scored ! (pick mod 5))
                 else fst (hd scored))"
    by (auto simp: choose_best_question_def Let_def valid_def v150_def scored_def split: if_splits)
  have "\<exists>x \<in> set scored. q = fst x"
  proof (cases "first \<and> length scored \<ge> 5")
    case True
    then have "pick mod 5 < length (take 5 scored)" by simp
    then have "take 5 scored ! (pick mod 5) \<in> set (take 5 scored)" by (rule nth_mem)
    then have "take 5 scored ! (pick mod 5) \<in> set scored" by (rule in_set_takeD)
    with True q show ?thesis by auto
  next
    case False
    with q ne show ?thesis by (auto intro: hd_in_set)
  qed
  with mem have "q \<in> set valid" by auto
  then show ?thesis by (simp add: valid_def)
qed

lemma valid_question_not_asked: "valid_question asked_keys q \<Longrightarrow> key q \<notin> asked_keys"
  by (auto simp: valid_question_def split: if_splits)

lemma choose_best_question_not_asked:
  "choose_best_question pick cs qs asked_keys first st = Some q \<Longrightarrow> key q \<notin> asked_keys"
  using choose_best_question_valid valid_question_not_asked by blast

lemma get_discriminating_questions_not_asked:
  "q \<in> set (get_discriminating_questions qs cs asked_keys cnt) \<Longrightarrow> key q \<notin> asked_keys"
  by (auto simp: get_discriminating_questions_def Let_def dest!: in_set_takeD)

lemma asked_sort [simp]: "asked (sort_candidates s) = asked s"
  by (simp add: sort_candidates_def)
lemma asked_apply [simp]: "asked (apply_answer s q a) = asked s"
  by (simp add: apply_answer_def answer_y_def answer_n_def keep_only_def)
lemma asked_strike [simp]: "asked (strike_elimination s k) = asked s"
  by (simp add: strike_elimination_def Let_def)
lemma asked_update [simp]: "asked (update_state_with_answer s q a k) = asked s"
  by (simp add: update_state_with_answer_def Let_def)
lemma asked_eliminate [simp]: "asked (eliminate_movie s mid) = asked s"
  by (simp add: eliminate_movie_def)

lemma asked_note_question:
  "asked (note_question s q a) =
     insert (key q) (asked s) \<union>
       (if a = ''y'' \<and> startswith (key q) ''language_'' then all_languages - {key q} else {})"
  by (auto simp: note_question_def Let_def)

lemma asked_answer_turn:
  "answer_turn ar s q a = Inr s' \<Longrightarrow> asked s' = asked (note_question s q a)"
  by (auto simp: answer_turn_def update_streak_def split: list.splits option.splits if_splits)

lemma asked_targeted:
  "asked (targeted_answer_turn ar s q a) = insert (key q) (asked s)"
  by (simp add: targeted_answer_turn_def Let_def)

lemma asked_reject: "reject_guess ar s = Inr s' \<Longrightarrow> asked s' = asked s"
  by (auto simp: reject_guess_def Let_def split: list.splits option.splits)

lemma asked_manual: "manual_eliminate s = Inr s' \<Longrightarrow> asked s' = asked s"
  by (auto simp: manual_eliminate_def split: list.splits option.splits)

lemma asked_step_mono:
  assumes "step ar (s, h) e = Inr (s', h')" "e \<noteq> Undo"
  shows "asked s \<subseteq> asked s'"
proof (cases e)
  case (Answer q a)
  with assms(1) have "answer_turn ar s q a = Inr s'"
    by (simp split: sum.splits)
  then have "asked s' = asked (note_question s q a)" by (rule asked_answer_turn)
  then show ?thesis by (simp add: asked_note_question subset_insertI2)
next
  case (TargetedAnswer q a)
  with assms(1) have "s' = targeted_answer_turn ar s q a" by simp
  then show ?thesis by (simp add: asked_targeted subset_insertI)
next
  case RejectGuess
  with assms(1) have "reject_guess ar s = Inr s'" by (simp split: sum.splits)
  then show ?thesis by (simp add: asked_reject)
next
  case ManualEliminate
  with assms(1) have "manual_eliminate s = Inr s'" by (simp split: sum.splits)
  then show ?thesis by (simp add: asked_manual)
next
  case Undo
  with assms(2) show ?thesis by simp
qed

lemma asked_run_mono:
  "run ar (s, h) es = Inr (s', h') \<Longrightarrow> Undo \<notin> set es \<Longrightarrow> asked s \<subseteq> asked s'"
proof (induction es arbitrary: s h)
  case Nil
  then show ?case by simp
next
  case (Cons e es)
  from Cons.prems(1) obtain s1 h1 where
    st: "step ar (s, h) e = Inr (s1, h1)" and rn: "run ar (s1, h1) es = Inr (s', h')"
    by (auto split: sum.splits)
  from Cons.prems(2) have "e \<noteq> Undo" "Undo \<notin> set es" by auto
  with asked_step_mono [OF st] Cons.IH [OF rn] show ?case by blast
qed

lemma asked_step_answer:
  assumes "step ar (s, h) (Answer q a) = Inr (s', h')"
  shows "key q \<in> asked s'"
proof -
  from assms have "answer_turn ar s q a = Inr s'" by (simp split: sum.splits)
  then have "asked s' = asked (note_question s q a)" by (rule asked_answer_turn)
  then show ?thesis by (simp add: asked_note_question)
qed

lemma asked_step_targeted:
  "step ar (s, h) (TargetedAnswer q a) = Inr (s', h') \<Longrightarrow> key q \<in> asked s'"
  by (auto simp: asked_targeted)

lemma log2_half: "log 2 (1 / 2) = - 1"
  by (simp add: log_divide)
lemmas ex4_defs = session4_def start_session_def movie_F_def language_en_def state_after_def

lemma entropy_split_even: "0 < n \<Longrightarrow> entropy_split n n = 1"
  unfolding entropy_split_def Let_def
  by (simp add: log2_half)

lemma question_fields [simp]:
  "key language_en = ''language_en''" "key language_fr = ''language_fr''" "key popular = ''popular''"
  "requires language_en = None" "requires language_fr = None" "requires popular = None"
  "excludes language_en = None" "excludes language_fr = None" "excludes popular = None"
  by (simp_all add: language_en_def language_fr_def popular_def question_def)

lemma scores_start:
  "score language_en [movie_A, movie_B, movie_C, movie_F] = 100"
  "score language_fr [movie_A, movie_B, movie_C, movie_F] = 100"
  "score popular [movie_A, movie_B, movie_C, movie_F] = 1"
  by (simp_all add: score_def split_counts_def ex_defs movie_F_def language_en_def
      entropy_split_even startswith_def startswith_any_def)

lemma scores_after_no:
  "score language_fr [movie_B, movie_C] = - 1"
  "score popular [movie_B, movie_C] = 1"
  by (simp_all add: score_def split_counts_def ex_defs entropy_split_even startswith_def
      startswith_any_def)

lemma scores_after_yes:
  "score language_fr [movie_A, movie_F] = - 1"
  "score popular [movie_A, movie_F] = 1"
  by (simp_all add: score_def split_counts_def ex_defs movie_F_def entropy_split_even
      startswith_def startswith_any_def)

lemma start4:
  "candidates (fst session4) = [movie_A, movie_B, movie_C, movie_F]"
  "asked (fst session4) = {}"
  "recent_question_types (fst session4) = []"
  by (simp_all add: ex4_defs Let_def ex_defs upd_defs)

lemma run_no:
  "run default_args session4 [Answer language_en ''n''] \<noteq> Inl IndexError"
  "candidates (state_after [Answer language_en ''n'']) = [movie_B, movie_C]"
  "asked (state_after [Answer language_en ''n'']) = {''language_en''}"
  "recent_question_types (state_after [Answer language_en ''n'']) = [''language'']"
  "guess_cooldown (state_after [Answer language_en ''n'']) = 0"
  "top_streak_len (state_after [Answer language_en ''n'']) = 1"
  "score_of (state_after [Answer language_en ''n'']) movie_B = 3"
  "score_of (state_after [Answer language_en ''n'']) movie_C = 3"
  by (simp_all add: ex4_defs Let_def ex_defs upd_defs turn_defs score_of_def)

lemma run_yes:
  "run default_args session4 [Answer language_en ''y''] \<noteq> Inl IndexError"
  "candidates (state_after [Answer language_en ''y'']) = [movie_A, movie_F]"
  "asked (state_after [Answer language_en ''y'']) = all_languages"
  "recent_question_types (state_after [Answer language_en ''y'']) = [''language'']"
  "guess_cooldown (state_after [Answer language_en ''y'']) = 0"
  "top_streak_len (state_after [Answer language_en ''y'']) = 1"
  "score_of (state_after [Answer language_en ''y'']) movie_A = 5"
  "score_of (state_after [Answer language_en ''y'']) movie_F = 5"
  by (simp_all add: ex4_defs Let_def ex_defs upd_defs turn_defs score_of_def) (auto simp: all_languages_def)

lemma run_undo_no: "run default_args session4 [Answer language_en ''n'', Undo] = Inr session4"
  by (simp add: ex4_defs Let_def ex_defs upd_defs turn_defs)

lemma run_undo_yes: "run default_args session4 [Answer language_en ''y'', Undo] = Inr session4"
  by (simp add: ex4_defs Let_def ex_defs upd_defs turn_defs)

lemma run_unknown:
  "run default_args session4 [Answer language_en ''y'', Undo, Answer language_en ''?''] \<noteq> Inl IndexError"
  "candidates (state_after [Answer language_en ''y'', Undo, Answer language_en ''?''])
     = [movie_A, movie_B, movie_C, movie_F]"
  "asked (state_after [Answer language_en ''y'', Undo, Answer language_en ''?'']) = {''language_en''}"
  "recent_question_types (state_after [Answer language_en ''y'', Undo, Answer language_en ''?''])
     = [''language'']"
  "guess_cooldown (state_after [Answer language_en ''y'', Undo, Answer language_en ''?'']) = 0"
  "top_streak_len (state_after [Answer language_en ''y'', Undo, Answer language_en ''?'']) = 1"
  "score_of (state_after [Answer language_en ''y'', Undo, Answer language_en ''?'']) movie_A = 0"
  "score_of (state_after [Answer language_en ''y'', Undo, Answer language_en ''?'']) movie_B = 0"
  by (simp_all add: ex4_defs Let_def ex_defs upd_defs turn_defs score_of_def)

lemmas sel4_defs = choose_best_question_def valid_question_def scored_questions_def
  should_diversify_def count_recent_type_def last_n_def get_question_type_def contradictions_def
  jokers_used_def questions3_def startswith_def startswith_any_def all_languages_def

lemma offer_start:
  "map_option key (choose_best_question 0 (candidates (fst session4)) questions3
      (asked (fst session4)) True (fst session4)) = Some ''language_en''"
  by (simp add: start4 scores_start sel4_defs)

lemma offer_after_no:
  "map_option key (choose_best_question 0 (candidates (state_after [Answer language_en ''n''])) questions3
      (asked (state_after [Answer language_en ''n''])) False (state_after [Answer language_en ''n'']))
   = Some ''popular''"
  by (simp add: run_no scores_after_no sel4_defs)

lemma offer_after_yes:
  "map_option key (choose_best_question 0 (candidates (state_after [Answer language_en ''y''])) questions3
      (asked (state_after [Answer language_en ''y''])) False (state_after [Answer language_en ''y'']))
   = Some ''popular''"
  by (simp add: run_yes scores_after_yes sel4_defs)

lemma offer_after_unknown:
  "map_option key (choose_best_question 0
      (candidates (state_after [Answer language_en ''y'', Undo, Answer language_en ''?''])) questions3
      (asked (state_after [Answer language_en ''y'', Undo, Answer language_en ''?''])) False
      (state_after [Answer language_en ''y'', Undo, Answer language_en ''?''])) = Some ''language_fr''"
  by (simp add: run_unknown scores_start sel4_defs)

lemma no_guess_after_no:
  "\<not> guess_offered (state_after [Answer language_en ''n''])"
  "\<not> streak_guess_offered (state_after [Answer language_en ''n''])"
  by (simp_all add: guess_offered_def streak_guess_offered_def should_enter_guess_mode_def run_no)

lemma no_guess_after_yes:
  "\<not> guess_offered (state_after [Answer language_en ''y''])"
  "\<not> streak_guess_offered (state_after [Answer language_en ''y''])"
  by (simp_all add: guess_offered_def streak_guess_offered_def should_enter_guess_mode_def run_yes)

lemma no_guess_after_unknown:
  "\<not> guess_offered (state_after [Answer language_en ''y'', Undo, Answer language_en ''?''])"
  by (simp add: guess_offered_def should_enter_guess_mode_def run_unknown)

text \<open>
  C7, as the code has it. Once a question has been answered (in the main path or as a
  targeted question), its key is in the asked set of every later state of the session
  that is reached without an undo, and in such a state neither
  \<^verbatim>\<open>choose_best_question\<close> (whatever the question list, the draw and the first-question
  flag) nor \<^verbatim>\<open>get_discriminating_questions\<close> returns a question with that key.
\<close>

theorem asked_key_not_offered_again:
  assumes "e = Answer q a \<or> e = TargetedAnswer q a"
    and "run ar (s, h) (e # es) = Inr (s', h')"
    and "Undo \<notin> set es"
  shows "key q \<in> asked s'
       \<and> (\<forall>pick qs first q'.
             choose_best_question pick (candidates s') qs (asked s') first s' = Some q' \<longrightarrow>
             key q' \<noteq> key q)
       \<and> (\<forall>qs cnt q'. q' \<in> set (get_discriminating_questions qs (candidates s') (asked s') cnt) \<longrightarrow>
             key q' \<noteq> key q)"
proof -
  from assms(2) obtain s1 h1 where
    st: "step ar (s, h) e = Inr (s1, h1)" and rn: "run ar (s1, h1) es = Inr (s', h')"
    by (auto split: sum.splits)
  from assms(1) st have "key q \<in> asked s1"
    using asked_step_answer asked_step_targeted by blast
  with asked_run_mono [OF rn assms(3)] have k: "key q \<in> asked s'" by blast
  have a: "key q' \<noteq> key q"
    if "choose_best_question pick (candidates s') qs (asked s') first s' = Some q'"
    for pick qs first q'
    using choose_best_question_not_asked [OF that] k by auto
  have b: "key q' \<noteq> key q"
    if "q' \<in> set (get_discriminating_questions qs (candidates s') (asked s') cnt)"
    for qs cnt q'
    using get_discriminating_questions_not_asked [OF that] k by auto
  show ?thesis using k a b by blast
qed

theorem asked_key_not_offered_again_witness:
  "\<exists>s' h'. run default_args session4 [Answer language_en ''n''] = Inr (s', h')
     \<and> ''language_en'' \<in> asked s'
     \<and> choose_best_question 0 (candidates s') questions3 (asked s') False s' \<noteq> Some language_en"
proof -
  have "\<exists>s' h'. run default_args session4 [Answer language_en ''n''] = Inr (s', h')"
    by (simp add: ex4_defs Let_def ex_defs upd_defs turn_defs)
  then obtain s' h' where
    r: "run default_args (fst session4, snd session4) (Answer language_en ''n'' # []) = Inr (s', h')"
    by auto
  have u: "Undo \<notin> set []" by simp
  note T = asked_key_not_offered_again [OF disjI1 [OF refl] r u]
  from T have "''language_en'' \<in> asked s'" by simp
  moreover from T have
    "choose_best_question 0 (candidates s') questions3 (asked s') False s' \<noteq> Some language_en"
    by blast
  ultimately show ?thesis using r by auto
qed

text \<open>
  C7 without the proviso fails: with an undo the key comes back. In \<open>session4\<close> the selector offers \<^verbatim>\<open>language_en\<close>;
  after the answer "no" the key is asked, two candidates remain, no guess is due and the
  next question (\<^verbatim>\<open>popular\<close>) is offered; the user undoes, the session is the initial
  one again, and the selector offers \<^verbatim>\<open>language_en\<close> again.
\<close>

theorem asked_key_offered_again_after_undo:
  "run default_args session4 [Answer language_en ''n''] \<noteq> Inl IndexError
   \<and> ''language_en'' \<in> asked (state_after [Answer language_en ''n''])
   \<and> \<not> guess_offered (state_after [Answer language_en ''n''])
   \<and> \<not> streak_guess_offered (state_after [Answer language_en ''n''])
   \<and> map_option key
        (choose_best_question 0 (candidates (state_after [Answer language_en ''n''])) questions3
           (asked (state_after [Answer language_en ''n''])) False
           (state_after [Answer language_en ''n''])) = Some ''popular''
   \<and> run default_args session4 [Answer language_en ''n'', Undo] = Inr session4
   \<and> map_option key
        (choose_best_question 0 (candidates (fst session4)) questions3
           (asked (fst session4)) True (fst session4)) = Some ''language_en''"
  using run_no(1) no_guess_after_no offer_after_no run_undo_no offer_start
  by (simp add: run_no(3))

lemma language_question_keys_eq: "set language_question_keys = all_languages"
  by (simp add: language_question_keys_def default_question_keys_def startswith_def all_languages_def)

text \<open>
  C8, as the code has it. After "yes" to a question whose key starts with \<^verbatim>\<open>language_\<close>,
  answered in the main path, the keys of all language questions are in the asked set of
  every later state reached without an undo, and there no selector returns a language
  question.
\<close>

theorem language_yes_excludes_languages:
  assumes "startswith (key q) ''language_''"
    and "run ar (s, h) (Answer q ''y'' # es) = Inr (s', h')"
    and "Undo \<notin> set es"
  shows "set language_question_keys \<subseteq> asked s'
       \<and> (\<forall>pick qs first q'.
             choose_best_question pick (candidates s') qs (asked s') first s' = Some q' \<longrightarrow>
             key q' \<notin> set language_question_keys)
       \<and> (\<forall>qs cnt q'. q' \<in> set (get_discriminating_questions qs (candidates s') (asked s') cnt) \<longrightarrow>
             key q' \<notin> set language_question_keys)"
proof -
  from assms(2) obtain s1 h1 where
    st: "step ar (s, h) (Answer q ''y'') = Inr (s1, h1)" and rn: "run ar (s1, h1) es = Inr (s', h')"
    by (auto split: sum.splits)
  from st have "answer_turn ar s q ''y'' = Inr s1" by (simp split: sum.splits)
  then have "asked s1 = asked (note_question s q ''y'')" by (rule asked_answer_turn)
  with assms(1) have "all_languages \<subseteq> asked s1"
    by (auto simp: asked_note_question)
  with asked_run_mono [OF rn assms(3)] have k: "set language_question_keys \<subseteq> asked s'"
    by (auto simp: language_question_keys_eq)
  have a: "key q' \<notin> set language_question_keys"
    if "choose_best_question pick (candidates s') qs (asked s') first s' = Some q'"
    for pick qs first q'
    using choose_best_question_not_asked [OF that] k by auto
  have b: "key q' \<notin> set language_question_keys"
    if "q' \<in> set (get_discriminating_questions qs (candidates s') (asked s') cnt)"
    for qs cnt q'
    using get_discriminating_questions_not_asked [OF that] k by auto
  show ?thesis using k a b by blast
qed

theorem language_yes_excludes_languages_witness:
  "startswith (key language_en) ''language_''
   \<and> (\<exists>s' h'. run default_args session4 [Answer language_en ''y''] = Inr (s', h')
        \<and> ''language_fr'' \<in> asked s'
        \<and> choose_best_question 0 (candidates s') questions3 (asked s') False s' \<noteq> Some language_fr)"
proof -
  have p: "startswith (key language_en) ''language_''"
    by (simp add: startswith_def)
  have "\<exists>s' h'. run default_args session4 [Answer language_en ''y''] = Inr (s', h')"
    by (simp add: ex4_defs Let_def ex_defs upd_defs turn_defs)
  then obtain s' h' where
    r: "run default_args (fst session4, snd session4) (Answer language_en ''y'' # []) = Inr (s', h')"
    by auto
  have k: "''language_fr'' \<in> set language_question_keys"
    by (simp add: language_question_keys_eq all_languages_def)
  have u: "Undo \<notin> set []" by simp
  note T = language_yes_excludes_languages [OF p r u]
  from T k have "''language_fr'' \<in> asked s'" by auto
  moreover from T k have
    "choose_best_question 0 (candidates s') questions3 (asked s') False s' \<noteq> Some language_fr"
    by force
  ultimately show ?thesis using p r by auto
qed

text \<open>
  C8 without the proviso fails: with an undo the other language questions come back. In
  \<open>session4\<close> the answer "yes" to
  \<^verbatim>\<open>language_en\<close> marks \<^verbatim>\<open>language_fr\<close> as asked; two candidates remain, no guess is due
  and the next question is offered; the user undoes and then answers \<^verbatim>\<open>language_en\<close>
  with "?": no guess is due and the selector offers \<^verbatim>\<open>language_fr\<close>.
\<close>

theorem language_offered_again_after_undo:
  "run default_args session4 [Answer language_en ''y''] \<noteq> Inl IndexError
   \<and> ''language_fr'' \<in> asked (state_after [Answer language_en ''y''])
   \<and> \<not> guess_offered (state_after [Answer language_en ''y''])
   \<and> \<not> streak_guess_offered (state_after [Answer language_en ''y''])
   \<and> map_option key
        (choose_best_question 0 (candidates (state_after [Answer language_en ''y''])) questions3
           (asked (state_after [Answer language_en ''y''])) False
           (state_after [Answer language_en ''y''])) = Some ''popular''
   \<and> run default_args session4 [Answer language_en ''y'', Undo] = Inr session4
   \<and> run default_args session4 [Answer language_en ''y'', Undo, Answer language_en ''?'']
        \<noteq> Inl IndexError
   \<and> \<not> guess_offered (state_after [Answer language_en ''y'', Undo, Answer language_en ''?''])
   \<and> map_option key
        (choose_best_question 0
           (candidates (state_after [Answer language_en ''y'', Undo, Answer language_en ''?'']))
           questions3
           (asked (state_after [Answer language_en ''y'', Undo, Answer language_en ''?''])) False
           (state_after [Answer language_en ''y'', Undo, Answer language_en ''?'']))
        = Some ''language_fr''"
  using run_yes(1) no_guess_after_yes offer_after_yes run_undo_yes run_unknown(1)
    no_guess_after_unknown offer_after_unknown
  by (simp add: run_yes(3) all_languages_def)

text \<open>
  The targeted questions do not have the language rule: a "yes" to a language question
  asked there adds its own key only.
\<close>

lemma targeted_language_yes_marks_one_key:
  "asked (targeted_answer_turn ar s q ''y'') = insert (key q) (asked s)"
  by (rule asked_targeted)


section \<open>Unknown versus false in the franchise predicates (C6)\<close>

text \<open>
  C6. For a movie that has an identifier and no title, in a database without a record
  for it, every attribute that \<^verbatim>\<open>pred_is_harry_potter\<close> reads is absent, and yet its
  answer is false; \<^verbatim>\<open>pred_franchise_name\<close> answers unknown on the same input.
\<close>

theorem pred_is_harry_potter_false_without_data:
  "pred_is_harry_potter Map.empty bare_movie = Some False
   \<and> pred_franchise_name Map.empty ''Harry Potter'' bare_movie = None"
  by (simp add: pred_is_harry_potter_def pred_franchise_name_def bare_movie_def title_lower_def
      lower_def get_details_def empty_details_def hp_actors_def)

theorem pred_is_harry_potter_false_without_data_witness:
  "movie_id bare_movie = Some 7 \<and> title bare_movie = None
   \<and> get_details Map.empty 7 = empty_details
   \<and> pred_is_harry_potter Map.empty bare_movie \<noteq> None
   \<and> pred_franchise_name Map.empty ''Harry Potter'' bare_movie \<noteq> Some False"
  using pred_is_harry_potter_false_without_data
  by (simp add: bare_movie_def get_details_def)

lemma pred_franchise_name_unknown_without_data:
  "movie_id m = Some mid \<Longrightarrow> title m = None \<Longrightarrow> db mid = None \<Longrightarrow> franchise \<noteq> [] \<Longrightarrow>
   pred_franchise_name db franchise m = None"
  by (simp add: pred_franchise_name_def title_lower_def lower_def get_details_def
      empty_details_def)

lemma pred_is_harry_potter_never_unknown_with_id:
  "movie_id m = Some mid \<Longrightarrow> pred_is_harry_potter db m \<noteq> None"
  by (auto simp: pred_is_harry_potter_def Let_def)


section \<open>Snapshot, answer, undo (C4)\<close>

lemma same_on_refl: "same_on F h h"
  by (simp add: same_on_def)

lemma same_on_trans: "same_on F h h1 \<Longrightarrow> same_on F h1 h2 \<Longrightarrow> same_on F h h2"
  by (simp add: same_on_def)

lemma kept_refl: "apart F h r \<Longrightarrow> kept F r h h"
  by (simp add: kept_def same_on_refl)

lemma kept_trans: "kept F r h h1 \<Longrightarrow> kept F r h1 h2 \<Longrightarrow> kept F r h h2"
  using same_on_trans by (auto simp: kept_def)

lemma kept_then: "kept F r h h1 \<Longrightarrow> (apart F h1 r \<Longrightarrow> kept F r h1 h2) \<Longrightarrow> kept F r h h2"
  using kept_trans by (auto simp: kept_def)

lemmas frame_defs = kept_def apart_def same_on_def obj_refs_def

lemma kept_assign_candidates: "apart F h r \<Longrightarrow> kept F r h (assign_candidates h r xs)"
  by (auto simp: frame_defs assign_candidates_def new_movie_list_def)

lemma kept_assign_scores: "apart F h r \<Longrightarrow> kept F r h (assign_scores h r xs)"
  by (auto simp: frame_defs assign_scores_def new_score_dict_def)

lemma kept_assign_strikes: "apart F h r \<Longrightarrow> kept F r h (assign_strikes h r xs)"
  by (auto simp: frame_defs assign_strikes_def new_strike_dict_def)

lemma kept_assign_recent: "apart F h r \<Longrightarrow> kept F r h (assign_recent h r xs)"
  by (auto simp: frame_defs assign_recent_def new_type_list_def)

lemma kept_add_asked: "apart F h r \<Longrightarrow> kept F r h (add_asked h r ks)"
  by (auto simp: frame_defs add_asked_def)

lemma kept_write_candidates: "apart F h r \<Longrightarrow> kept F r h (write_candidates h r xs)"
  by (auto simp: frame_defs write_candidates_def)

lemma kept_write_scores: "apart F h r \<Longrightarrow> kept F r h (write_scores h r xs)"
  by (auto simp: frame_defs write_scores_def)

lemma kept_write_strikes: "apart F h r \<Longrightarrow> kept F r h (write_strikes h r xs)"
  by (auto simp: frame_defs write_strikes_def)

lemma kept_write_recent: "apart F h r \<Longrightarrow> kept F r h (write_recent h r xs)"
  by (auto simp: frame_defs write_recent_def)

lemma kept_set_numbers: "apart F h r \<Longrightarrow> kept F r h (set_numbers h r a b c d e)"
  by (auto simp: frame_defs set_numbers_def)


lemma kept_note_recent: "apart F h r \<Longrightarrow> kept F r h (note_recent_obj h r q)"
  unfolding note_recent_obj_def Let_def
  by (auto intro: kept_write_recent kept_then [OF kept_write_recent kept_assign_recent])

lemma kept_note_language: "apart F h r \<Longrightarrow> kept F r h (note_language_obj h r q ans)"
  unfolding note_language_obj_def by (auto intro: kept_add_asked kept_refl)

lemma kept_note_counters: "apart F h r \<Longrightarrow> kept F r h (note_counters_obj h r)"
  unfolding note_counters_obj_def Let_def by (rule kept_set_numbers)

lemma kept_note_question: "apart F h r \<Longrightarrow> kept F r h (note_question_obj h r q ans)"
  unfolding note_question_obj_def
  by (intro kept_then [OF kept_then [OF kept_then [OF kept_add_asked kept_note_recent]
        kept_note_language] kept_note_counters])

lemma kept_keep_only: "apart F h r \<Longrightarrow> kept F r h (keep_only_obj h r res)"
  unfolding keep_only_obj_def Let_def
  by (intro kept_then [OF kept_then [OF kept_then [OF kept_write_scores kept_assign_candidates]
        kept_assign_scores] kept_assign_strikes])

lemma kept_apply_answer: "apart F h r \<Longrightarrow> kept F r h (apply_answer_obj h r q ans)"
  unfolding apply_answer_obj_def Let_def
  by (auto intro: kept_keep_only kept_write_scores kept_refl)

lemma kept_strike_elimination: "apart F h r \<Longrightarrow> kept F r h (strike_elimination_obj h r k)"
  unfolding strike_elimination_obj_def Let_def
  by (auto intro: kept_refl
      kept_then [OF kept_then [OF kept_assign_candidates kept_write_scores] kept_write_strikes])

lemma kept_sort: "apart F h r \<Longrightarrow> kept F r h (sort_candidates_obj h r)"
  unfolding sort_candidates_obj_def by (rule kept_write_candidates)

lemma kept_update: "apart F h r \<Longrightarrow> kept F r h (update_state_with_answer_obj h r q ans k)"
  unfolding update_state_with_answer_obj_def Let_def
  by (auto intro: kept_then [OF kept_apply_answer kept_sort]
      kept_then [OF kept_then [OF kept_apply_answer kept_strike_elimination] kept_sort])

lemma kept_update_streak:
  "apart F h r \<Longrightarrow> update_streak_obj h r = Inr h' \<Longrightarrow> kept F r h h'"
  unfolding update_streak_obj_def Let_def
  by (auto intro: kept_refl kept_set_numbers split: list.splits option.splits if_splits)


lemma view_same_on:
  "same_on F h h' \<Longrightarrow> x \<in> F \<Longrightarrow> obj_refs (objects h x) \<subseteq> F \<Longrightarrow> view h' x = view h x"
  by (simp add: view_def same_on_def obj_refs_def Let_def)

lemma snapshot_facts:
  assumes "snapshot_state_obj h r = (h1, snap)"
  shows "view h1 snap = view h r"
    and "snap \<in> {next_ref h ..< next_ref h + 6}"
    and "obj_refs (objects h1 snap) \<subseteq> {next_ref h ..< next_ref h + 6}"
    and "next_ref h1 = next_ref h + 6"
    and "\<And>x. x < next_ref h \<Longrightarrow> objects h1 x = objects h x"
    and "\<And>x. x < next_ref h \<Longrightarrow> movie_lists h1 x = movie_lists h x \<and> key_sets h1 x = key_sets h x
           \<and> score_dicts h1 x = score_dicts h x \<and> strike_dicts h1 x = strike_dicts h x
           \<and> type_lists h1 x = type_lists h x"
  using assms
  by (auto simp: snapshot_state_obj_def new_movie_list_def new_key_set_def new_score_dict_def
      new_strike_dict_def new_type_list_def new_object_def view_def obj_refs_def Let_def)

lemma snapshot_apart:
  assumes "snapshot_state_obj h r = (h1, snap)" "allocated h r"
  shows "apart {next_ref h ..< next_ref h + 6} h1 r" and "view h1 r = view h r"
proof -
  from assms(2) have r: "r < next_ref h" and refs: "\<forall>x \<in> obj_refs (objects h r). x < next_ref h"
    by (simp_all add: allocated_def)
  note f = snapshot_facts [OF assms(1)]
  from r have o: "objects h1 r = objects h r" by (rule f(5))
  show "apart {next_ref h ..< next_ref h + 6} h1 r"
    using r refs o f(4) by (auto simp: apart_def)
  show "view h1 r = view h r"
    using refs o f(6) by (simp add: view_def obj_refs_def Let_def)
qed


lemma view_add_asked: "view (add_asked h r ks) r = (view h r)\<lparr>asked := asked (view h r) \<union> ks\<rparr>"
  by (simp add: view_def add_asked_def Let_def)

lemma view_write_candidates: "view (write_candidates h r xs) r = (view h r)\<lparr>candidates := xs\<rparr>"
  by (simp add: view_def write_candidates_def Let_def)

lemma view_write_scores: "view (write_scores h r d) r = (view h r)\<lparr>scores := d\<rparr>"
  by (simp add: view_def write_scores_def Let_def)

lemma view_write_strikes: "view (write_strikes h r d) r = (view h r)\<lparr>strikes := d\<rparr>"
  by (simp add: view_def write_strikes_def Let_def)

lemma view_write_recent:
  "view (write_recent h r ts) r = (view h r)\<lparr>recent_question_types := ts\<rparr>"
  by (simp add: view_def write_recent_def Let_def)

lemma view_assign_candidates: "view (assign_candidates h r xs) r = (view h r)\<lparr>candidates := xs\<rparr>"
  by (simp add: view_def assign_candidates_def new_movie_list_def Let_def)

lemma view_assign_scores: "view (assign_scores h r d) r = (view h r)\<lparr>scores := d\<rparr>"
  by (simp add: view_def assign_scores_def new_score_dict_def Let_def)

lemma view_assign_strikes: "view (assign_strikes h r d) r = (view h r)\<lparr>strikes := d\<rparr>"
  by (simp add: view_def assign_strikes_def new_strike_dict_def Let_def)

lemma view_assign_recent:
  "view (assign_recent h r ts) r = (view h r)\<lparr>recent_question_types := ts\<rparr>"
  by (simp add: view_def assign_recent_def new_type_list_def Let_def)

lemma view_set_numbers:
  "view (set_numbers h r qc gc sm sl cg) r =
     (view h r)\<lparr>question_count := qc, guess_cooldown := gc, top_streak_mid := sm,
                 top_streak_len := sl, consecutive_guesses := cg\<rparr>"
  by (simp add: view_def set_numbers_def Let_def)

lemma view_fields:
  "candidates (view h r) = movie_lists h (candidates_ref (objects h r))"
  "scores (view h r) = score_dicts h (scores_ref (objects h r))"
  "strikes (view h r) = strike_dicts h (strikes_ref (objects h r))"
  "recent_question_types (view h r) = type_lists h (recent_ref (objects h r))"
  "guess_cooldown (view h r) = guess_cooldown_val (objects h r)"
  "question_count (view h r) = question_count_val (objects h r)"
  "top_streak_mid (view h r) = top_streak_mid_val (objects h r)"
  "top_streak_len (view h r) = top_streak_len_val (objects h r)"
  "consecutive_guesses (view h r) = consecutive_guesses_val (objects h r)"
  by (simp_all add: view_def Let_def)

lemma view_note_question: "view (note_question_obj h r q ans) r = note_question (view h r) q ans"
  by (simp add: note_question_obj_def note_counters_obj_def note_language_obj_def
      note_recent_obj_def note_question_def Let_def view_set_numbers view_add_asked
      view_assign_recent view_write_recent view_fields [symmetric])

lemma view_keep_only: "view (keep_only_obj h r res) r = keep_only (view h r) res"
  by (simp add: keep_only_obj_def keep_only_def Let_def view_assign_strikes view_assign_scores
      view_assign_candidates view_write_scores view_fields [symmetric])

lemma view_apply_answer: "view (apply_answer_obj h r q ans) r = apply_answer (view h r) q ans"
  by (simp add: apply_answer_obj_def apply_answer_def answer_y_def answer_n_def Let_def
      view_keep_only view_write_scores view_fields [symmetric])

lemma view_strike_elimination:
  "view (strike_elimination_obj h r k) r = strike_elimination (view h r) k"
  by (simp add: strike_elimination_obj_def strike_elimination_def Let_def view_write_strikes
      view_write_scores view_assign_candidates)

lemma view_sort: "view (sort_candidates_obj h r) r = sort_candidates (view h r)"
  by (simp add: sort_candidates_obj_def sort_candidates_def view_write_candidates)

lemma view_update:
  "view (update_state_with_answer_obj h r q ans k) r = update_state_with_answer (view h r) q ans k"
  by (simp add: update_state_with_answer_obj_def update_state_with_answer_def Let_def
      view_sort view_strike_elimination view_apply_answer)

lemma view_update_streak:
  "update_streak_obj h r = Inr h' \<Longrightarrow> update_streak (view h r) = Inr (view h' r)"
  by (auto simp: update_streak_obj_def update_streak_def Let_def view_set_numbers
      view_fields [symmetric] split: list.splits option.splits if_splits)

lemma update_streak_obj_error:
  "update_streak_obj h r = Inl e \<longleftrightarrow> update_streak (view h r) = Inl e"
  by (auto simp: update_streak_obj_def update_streak_def Let_def view_fields [symmetric]
      split: list.splits option.splits)

text \<open>
  C4. Take a session whose state object and containers exist in the store. An answered
  question first appends a snapshot to the history and then changes the state object as
  \<open>answer_turn\<close> says; when it returns, the undo that follows makes the snapshot the
  current state, and the state read through it is equal, field by field (pool, asked
  keys, scores, strikes, counters, streak, recent types), to the state before the
  answer; the history is the one before the answer.
\<close>

theorem snapshot_answer_undo:
  assumes al: "allocated (heap c) (state_var c)"
    and an: "answer_obj a c q ans = Inr c1"
  shows "answer_turn a (view (heap c) (state_var c)) q ans = Inr (view (heap c1) (state_var c1))
       \<and> view (heap (undo_obj c1)) (state_var (undo_obj c1)) = view (heap c) (state_var c)
       \<and> history_var (undo_obj c1) = history_var c"
proof -
  define h where "h = heap c"
  define r where "r = state_var c"
  obtain h1 snap where sn: "snapshot_state_obj h r = (h1, snap)" by (cases "snapshot_state_obj h r")
  define F where "F = {next_ref h ..< next_ref h + 6}"
  define h2 where "h2 = note_question_obj h1 r q ans"
  define h3 where "h3 = update_state_with_answer_obj h2 r q ans (max_strikes_of a)"
  from an sn obtain h4 where
    st: "update_streak_obj h3 r = Inr h4" and
    c1: "c1 = \<lparr> heap = h4, state_var = r, history_var = snap # history_var c \<rparr>"
    by (auto simp: answer_obj_def h_def r_def h2_def h3_def Let_def split: sum.splits)
  from al have al': "allocated h r" by (simp add: h_def r_def)
  note sf = snapshot_facts [OF sn]
  have ap1: "apart F h1 r" and v1: "view h1 r = view h r"
    using snapshot_apart [OF sn al'] by (simp_all add: F_def)
  have k2: "kept F r h1 h2" unfolding h2_def using ap1 by (rule kept_note_question)
  have k3: "kept F r h1 h3" unfolding h3_def using k2 kept_update by (rule kept_then)
  have k4: "kept F r h1 h4" using k3 kept_update_streak [OF _ st] by (rule kept_then)
  then have "same_on F h1 h4" by (simp add: kept_def)
  then have "view h4 snap = view h1 snap"
    using sf(2,3) unfolding F_def by (rule view_same_on)
  with sf(1) have restored: "view h4 snap = view h r" by simp
  have "view h3 r = update_state_with_answer (note_question (view h r) q ans) q ans (max_strikes_of a)"
    by (simp add: h3_def h2_def view_update view_note_question v1)
  with view_update_streak [OF st] have
    "answer_turn a (view h r) q ans = Inr (view h4 r)"
    by (simp add: answer_turn_def)
  with restored show ?thesis
    by (simp add: c1 undo_obj_def h_def r_def)
qed


lemma answer_obj_returns:
  assumes al: "allocated (heap c) (state_var c)"
    and pure: "answer_turn a (view (heap c) (state_var c)) q ans = Inr s'"
  shows "\<exists>c1. answer_obj a c q ans = Inr c1"
proof -
  define h where "h = heap c"
  define r where "r = state_var c"
  obtain h1 snap where sn: "snapshot_state_obj h r = (h1, snap)" by (cases "snapshot_state_obj h r")
  define h3 where
    "h3 = update_state_with_answer_obj (note_question_obj h1 r q ans) r q ans (max_strikes_of a)"
  from al have "allocated h r" by (simp add: h_def r_def)
  then have v1: "view h1 r = view h r" using snapshot_apart(2) [OF sn] by simp
  have v3: "view h3 r = update_state_with_answer (note_question (view h r) q ans) q ans (max_strikes_of a)"
    by (simp add: h3_def view_update view_note_question v1)
  have "\<exists>h4. update_streak_obj h3 r = Inr h4"
  proof (cases "update_streak_obj h3 r")
    case (Inl e)
    then have "update_streak (view h3 r) = Inl e" by (simp add: update_streak_obj_error)
    with pure v3 show ?thesis by (simp add: answer_turn_def h_def r_def)
  next
    case (Inr h4)
    then show ?thesis by blast
  qed
  then show ?thesis
    using sn by (auto simp: answer_obj_def h_def r_def h3_def Let_def)
qed

lemma init_state_obj_facts:
  assumes "init_state_obj h movies = (h', r)"
  shows "view h' r = init_state movies" and "allocated h' r"
  using assms
  by (auto simp: init_state_obj_def new_movie_list_def new_key_set_def new_score_dict_def
      new_strike_dict_def new_type_list_def new_object_def view_def init_state_def
      allocated_def obj_refs_def Let_def)

lemma allocated_write_candidates: "allocated h r \<Longrightarrow> allocated (write_candidates h r xs) r"
  by (simp add: allocated_def write_candidates_def obj_refs_def)

lemma allocated_set_numbers: "allocated h r \<Longrightarrow> allocated (set_numbers h r a b c d e) r"
  by (simp add: allocated_def set_numbers_def obj_refs_def)

lemma start_session_obj_facts:
  "view (heap (start_session_obj movies)) (state_var (start_session_obj movies))
     = fst (start_session movies)"
  "allocated (heap (start_session_obj movies)) (state_var (start_session_obj movies))"
  "history_var (start_session_obj movies) = []"
proof -
  obtain h r where i: "init_state_obj empty_store movies = (h, r)"
    by (cases "init_state_obj empty_store movies")
  note f = init_state_obj_facts [OF i]
  show "view (heap (start_session_obj movies)) (state_var (start_session_obj movies))
     = fst (start_session movies)"
    using f(1)
    by (simp add: start_session_obj_def start_session_def i Let_def view_set_numbers view_sort
        view_fields [symmetric] sort_candidates_def init_state_def)
  show "allocated (heap (start_session_obj movies)) (state_var (start_session_obj movies))"
    using f(2)
    by (simp add: start_session_obj_def i Let_def sort_candidates_obj_def
        allocated_write_candidates allocated_set_numbers)
  show "history_var (start_session_obj movies) = []"
    by (simp add: start_session_obj_def i Let_def)
qed

theorem snapshot_answer_undo_witness:
  "allocated (heap session_obj4) (state_var session_obj4)
   \<and> candidates (view (heap session_obj4) (state_var session_obj4))
       = [movie_A, movie_B, movie_C, movie_F]
   \<and> (\<exists>c1. answer_obj default_args session_obj4 language_en ''n'' = Inr c1
         \<and> candidates (view (heap c1) (state_var c1)) = [movie_B, movie_C]
         \<and> asked (view (heap c1) (state_var c1)) = {''language_en''}
         \<and> view (heap (undo_obj c1)) (state_var (undo_obj c1))
             = view (heap session_obj4) (state_var session_obj4)
         \<and> history_var (undo_obj c1) = [])"
proof -
  note s = start_session_obj_facts [of "[movie_A, movie_B, movie_C, movie_F]",
      folded session_obj4_def session4_def]
  have "\<exists>s'. answer_turn default_args (fst session4) language_en ''n'' = Inr s'
      \<and> candidates s' = [movie_B, movie_C] \<and> asked s' = {''language_en''}"
    by (simp add: ex4_defs Let_def ex_defs upd_defs turn_defs)
  then obtain s' where
    p: "answer_turn default_args (view (heap session_obj4) (state_var session_obj4)) language_en ''n''
          = Inr s'" and
    ps: "candidates s' = [movie_B, movie_C]" "asked s' = {''language_en''}"
    using s(1) by auto
  from answer_obj_returns [OF s(2) p] obtain c1 where
    a: "answer_obj default_args session_obj4 language_en ''n'' = Inr c1" by blast
  note T = snapshot_answer_undo [OF s(2) a]
  from T p have "view (heap c1) (state_var c1) = s'" by simp
  with ps have c: "candidates (view (heap c1) (state_var c1)) = [movie_B, movie_C]"
    "asked (view (heap c1) (state_var c1)) = {''language_en''}" by simp_all
  have c0: "candidates (view (heap session_obj4) (state_var session_obj4))
      = [movie_A, movie_B, movie_C, movie_F]"
    using s(1) by (simp add: start4)
  from T s(3) have u: "view (heap (undo_obj c1)) (state_var (undo_obj c1))
             = view (heap session_obj4) (state_var session_obj4)"
    "history_var (undo_obj c1) = []" by simp_all
  show ?thesis using s(2) c0 a c u by blast
qed

end
